theory Spec2Isabelle
  imports Complex_Main
begin

section \<open>JavaScript numbers\<close>

text \<open>
  The engine computes with JavaScript numbers. They are modelled as the real numbers
  extended with the two infinities and NaN: the special values decide several branches of
  the source (a comparison with NaN is false, \<open>Math.max\<close> of NaN is NaN, a division by
  zero is an infinity). Rounding, overflow and the sign of zero are not modelled: a finite
  result is the exact real result, and a zero divisor counts as \<open>+0\<close>.
\<close>

datatype jsnum = Fin real | PInf | NInf | NaN

fun jneg :: "jsnum \<Rightarrow> jsnum" where
  "jneg (Fin a) = Fin (- a)"
| "jneg PInf = NInf"
| "jneg NInf = PInf"
| "jneg NaN = NaN"

fun jadd :: "jsnum \<Rightarrow> jsnum \<Rightarrow> jsnum" where
  "jadd (Fin a) (Fin b) = Fin (a + b)"
| "jadd NaN y = NaN"
| "jadd x NaN = NaN"
| "jadd PInf NInf = NaN"
| "jadd NInf PInf = NaN"
| "jadd PInf y = PInf"
| "jadd x PInf = PInf"
| "jadd NInf y = NInf"
| "jadd x NInf = NInf"

definition jsub :: "jsnum \<Rightarrow> jsnum \<Rightarrow> jsnum" where
  "jsub x y = jadd x (jneg y)"

fun jmul :: "jsnum \<Rightarrow> jsnum \<Rightarrow> jsnum" where
  "jmul (Fin a) (Fin b) = Fin (a * b)"
| "jmul NaN y = NaN"
| "jmul x NaN = NaN"
| "jmul (Fin a) y = (if a = 0 then NaN else if (0 < a) = (y = PInf) then PInf else NInf)"
| "jmul x (Fin b) = (if b = 0 then NaN else if (0 < b) = (x = PInf) then PInf else NInf)"
| "jmul x y = (if x = y then PInf else NInf)"

fun jdiv :: "jsnum \<Rightarrow> jsnum \<Rightarrow> jsnum" where
  "jdiv (Fin a) (Fin b) =
     (if b = 0 then (if a = 0 then NaN else if 0 < a then PInf else NInf)
      else Fin (a / b))"
| "jdiv NaN y = NaN"
| "jdiv x NaN = NaN"
| "jdiv (Fin a) y = Fin 0"
| "jdiv x (Fin b) = (if (0 \<le> b) = (x = PInf) then PInf else NInf)"
| "jdiv x y = NaN"

text \<open>The relational operators: every comparison with NaN is false.\<close>

fun jlt :: "jsnum \<Rightarrow> jsnum \<Rightarrow> bool" where
  "jlt (Fin a) (Fin b) = (a < b)"
| "jlt NaN y = False"
| "jlt x NaN = False"
| "jlt NInf y = (y \<noteq> NInf)"
| "jlt x PInf = (x \<noteq> PInf)"
| "jlt x y = False"

fun jle :: "jsnum \<Rightarrow> jsnum \<Rightarrow> bool" where
  "jle (Fin a) (Fin b) = (a \<le> b)"
| "jle NaN y = False"
| "jle x NaN = False"
| "jle NInf y = True"
| "jle x PInf = True"
| "jle x y = False"

definition jgt :: "jsnum \<Rightarrow> jsnum \<Rightarrow> bool" where
  "jgt x y = jlt y x"

text \<open>\<open>===\<close> on two numbers: NaN is not equal to itself.\<close>

definition strict_eq :: "jsnum \<Rightarrow> jsnum \<Rightarrow> bool" where
  "strict_eq x y = (x \<noteq> NaN \<and> x = y)"

text \<open>Truthiness of a number: \<open>0\<close> and NaN are falsy.\<close>

fun truthy :: "jsnum \<Rightarrow> bool" where
  "truthy (Fin a) = (a \<noteq> 0)"
| "truthy NaN = False"
| "truthy x = True"

text \<open>
  A field that may be absent (\<open>undefined\<close>, or \<open>null\<close> from a database row) is a
  \<open>jsnum option\<close>; \<open>None\<close> is falsy. \<open>or_default v d\<close> is \<open>v || d\<close>.
\<close>

definition truthy_opt :: "jsnum option \<Rightarrow> bool" where
  "truthy_opt v = (case v of None \<Rightarrow> False | Some x \<Rightarrow> truthy x)"

definition or_default :: "jsnum option \<Rightarrow> jsnum \<Rightarrow> jsnum" where
  "or_default v d = (case v of None \<Rightarrow> d | Some x \<Rightarrow> if truthy x then x else d)"

definition or_num :: "jsnum \<Rightarrow> jsnum \<Rightarrow> jsnum" where
  "or_num x d = (if truthy x then x else d)"

text \<open>\<open>Math.max\<close>, \<open>Math.min\<close>, \<open>Math.abs\<close>, \<open>Math.floor\<close>, \<open>Math.sqrt\<close>.\<close>

fun Math_max :: "jsnum \<Rightarrow> jsnum \<Rightarrow> jsnum" where
  "Math_max NaN y = NaN"
| "Math_max x NaN = NaN"
| "Math_max x y = (if jlt x y then y else x)"

fun Math_min :: "jsnum \<Rightarrow> jsnum \<Rightarrow> jsnum" where
  "Math_min NaN y = NaN"
| "Math_min x NaN = NaN"
| "Math_min x y = (if jlt y x then y else x)"

fun Math_abs :: "jsnum \<Rightarrow> jsnum" where
  "Math_abs (Fin a) = Fin \<bar>a\<bar>"
| "Math_abs NaN = NaN"
| "Math_abs x = PInf"

fun Math_floor :: "jsnum \<Rightarrow> jsnum" where
  "Math_floor (Fin a) = Fin (of_int \<lfloor>a\<rfloor>)"
| "Math_floor x = x"

fun Math_sqrt :: "jsnum \<Rightarrow> jsnum" where
  "Math_sqrt (Fin a) = (if a < 0 then NaN else Fin (sqrt a))"
| "Math_sqrt PInf = PInf"
| "Math_sqrt x = NaN"

text \<open>
  \<open>Math.pow\<close>, by the cases of the language standard: an exponent of zero gives 1 for
  every base, a negative base with a fractional exponent gives NaN, and the remaining
  cases with an infinite operand follow the size of the base and the sign of the exponent.
\<close>

definition is_integer :: "real \<Rightarrow> bool" where
  "is_integer e = (of_int \<lfloor>e\<rfloor> = e)"

definition pow_real :: "real \<Rightarrow> real \<Rightarrow> jsnum" where
  "pow_real b e =
     (if e = 0 then Fin 1
      else if 0 < b then Fin (b powr e)
      else if b = 0 then (if 0 < e then Fin 0 else PInf)
      else if is_integer e then Fin ((if even \<lfloor>e\<rfloor> then 1 else - 1) * (\<bar>b\<bar> powr e))
      else NaN)"

fun Math_pow :: "jsnum \<Rightarrow> jsnum \<Rightarrow> jsnum" where
  "Math_pow x NaN = NaN"
| "Math_pow x (Fin e) =
     (if e = 0 then Fin 1
      else case x of
        Fin b \<Rightarrow> pow_real b e
      | NaN \<Rightarrow> NaN
      | PInf \<Rightarrow> (if 0 < e then PInf else Fin 0)
      | NInf \<Rightarrow> (if 0 < e then (if is_integer e \<and> odd \<lfloor>e\<rfloor> then NInf else PInf)
                 else Fin 0))"
| "Math_pow NaN y = NaN"
| "Math_pow (Fin b) PInf =
     (if 1 < \<bar>b\<bar> then PInf else if \<bar>b\<bar> = 1 then NaN else Fin 0)"
| "Math_pow (Fin b) NInf =
     (if 1 < \<bar>b\<bar> then Fin 0 else if \<bar>b\<bar> = 1 then NaN else PInf)"
| "Math_pow x PInf = PInf"
| "Math_pow x NInf = Fin 0"

section \<open>The physics model (class FoulingPhysics)\<close>

datatype js_error = Error string

text \<open>
  The vessel row handed to the constructors. The geometry is numeric; the operating
  points, the wave exponent, the displacement, the category and the date of the last hull
  clean may be absent. \<open>last_clean_date\<close> holds the time value, in milliseconds, that
  \<open>new Date\<close> gives the stored date (NaN for a text that is no date).
\<close>

record vessel =
  length_v :: jsnum
  beam_v :: jsnum
  draft_v :: jsnum
  cb_v :: jsnum
  displacement_v :: "jsnum option"
  wave_exp :: "jsnum option"
  vessel_category :: "string option"
  eco_speed :: "jsnum option"
  full_speed :: "jsnum option"
  cost_eco :: "jsnum option"
  cost_full :: "jsnum option"
  last_clean_date :: "jsnum option"

text \<open>
  The fields of a \<open>FoulingPhysics\<close> object that its cost functions read or write.
  \<open>alpha\<close> and \<open>beta\<close> are \<open>null\<close> (\<open>None\<close>) until \<open>solveAlphaBeta\<close> caches them.
\<close>

record physics =
  length_p :: jsnum
  beam :: jsnum
  draft :: jsnum
  cb :: jsnum
  displacement :: jsnum
  waveExp :: jsnum
  vesselCategory :: string
  ecoSpeed :: jsnum
  fullSpeed :: jsnum
  costEco :: jsnum
  costFull :: jsnum
  alpha :: "jsnum option"
  beta :: "jsnum option"

definition KNOTS_TO_MPS :: real where "KNOTS_TO_MPS = 0.514444"
definition MPS_TO_KNOTS :: real where "MPS_TO_KNOTS = 1.94384"
definition RHO_WATER :: real where "RHO_WATER = 1025"
definition GRAVITY :: real where "GRAVITY = 9.81"
definition FUEL_ENERGY_DENSITY :: real where "FUEL_ENERGY_DENSITY = 42.7"
definition FUEL_PRICE_PER_LITER :: real where "FUEL_PRICE_PER_LITER = 1.92"

definition frKsMapping :: "real list" where
  "frKsMapping = [0, 0.00003, 0.00010, 0.00030, 0.00080, 0.00200]"

definition foulingIncreases :: "real list" where
  "foulingIncreases = [0, 0.15, 0.35, 0.60, 0.95, 1.93]"

text \<open>\<open>table[i] || 0\<close>: an index outside the table reads \<open>undefined\<close>, which is falsy.\<close>

definition index_or_zero :: "real list \<Rightarrow> nat \<Rightarrow> jsnum" where
  "index_or_zero table i =
     (if i < length table \<and> table ! i \<noteq> 0 then Fin (table ! i) else Fin 0)"

definition speedFactor :: "string \<Rightarrow> real" where
  "speedFactor category =
     (if category = ''cargo'' then 0.8
      else if category = ''container'' then 1.2
      else if category = ''cruise'' then 1.1
      else if category = ''naval'' then 1.4
      else if category = ''workboat'' then 0.9
      else if category = ''yacht'' then 1.3
      else 1.0)"

definition estimateVesselSpeeds :: "physics \<Rightarrow> jsnum \<times> jsnum" where
  "estimateVesselSpeeds p =
     (let ecoFr = Fin (0.18 * speedFactor (vesselCategory p));
          fullFr = Fin (0.25 * speedFactor (vesselCategory p));
          root = Math_sqrt (jmul (Fin GRAVITY) (length_p p))
      in (jmul (jmul ecoFr root) (Fin MPS_TO_KNOTS),
          jmul (jmul fullFr root) (Fin MPS_TO_KNOTS)))"

definition estimateVesselCosts :: "physics \<Rightarrow> jsnum \<times> jsnum" where
  "estimateVesselCosts p =
     (let powerEco = jmul (jmul (displacement p) (Math_pow (ecoSpeed p) (Fin 2.5))) (Fin 0.015);
          powerFull = jmul (jmul (displacement p) (Math_pow (fullSpeed p) (Fin 2.5))) (Fin 0.015);
          efficiencyBase = 0.35
      in (jdiv (jmul powerEco (Fin FUEL_PRICE_PER_LITER))
               (Fin (efficiencyBase * FUEL_ENERGY_DENSITY * 3.6)),
          jdiv (jmul powerFull (Fin FUEL_PRICE_PER_LITER))
               (Fin ((efficiencyBase + 0.05) * FUEL_ENERGY_DENSITY * 3.6))))"

definition estimateMissingParameters :: "physics \<Rightarrow> physics" where
  "estimateMissingParameters p =
     (let p1 = (if \<not> truthy (ecoSpeed p) \<or> \<not> truthy (fullSpeed p)
                then (let (e, f) = estimateVesselSpeeds p
                      in p\<lparr>ecoSpeed := or_num (ecoSpeed p) e,
                           fullSpeed := or_num (fullSpeed p) f\<rparr>)
                else p)
      in if \<not> truthy (costEco p1) \<or> \<not> truthy (costFull p1)
         then (let (ce, cf) = estimateVesselCosts p1
               in p1\<lparr>costEco := or_num (costEco p1) ce,
                     costFull := or_num (costFull p1) cf\<rparr>)
         else p1)"

text \<open>
  The constructor with \<open>initializeParameters\<close>. An absent operating point reads as a
  falsy value and is replaced by its estimate; the wetted surface, which no cost function
  reads, is left out of the record.
\<close>

definition absent_as_nan :: "jsnum option \<Rightarrow> jsnum" where
  "absent_as_nan v = (case v of None \<Rightarrow> NaN | Some x \<Rightarrow> x)"

definition new_FoulingPhysics :: "vessel \<Rightarrow> physics" where
  "new_FoulingPhysics v =
     (let p = \<lparr>length_p = length_v v, beam = beam_v v, draft = draft_v v, cb = cb_v v,
               displacement = absent_as_nan (displacement_v v),
               waveExp = or_default (wave_exp v) (Fin 4.5),
               vesselCategory =
                 (case vessel_category v of None \<Rightarrow> ''cargo''
                  | Some c \<Rightarrow> if c = [] then ''cargo'' else c),
               ecoSpeed = absent_as_nan (eco_speed v),
               fullSpeed = absent_as_nan (full_speed v),
               costEco = absent_as_nan (cost_eco v),
               costFull = absent_as_nan (cost_full v),
               alpha = None, beta = None\<rparr>;
          p' = (if \<not> truthy (displacement p)
                then p\<lparr>displacement :=
                         jdiv (jmul (jmul (jmul (jmul (length_p p) (beam p)) (draft p)) (cb p))
                                    (Fin RHO_WATER)) (Fin 1000)\<rparr>
                else p)
      in estimateMissingParameters p')"

text \<open>
  \<open>solveAlphaBeta\<close>: the two guards of the source, in their order, then the solution of
  the two-by-two system by Cramer's rule; the coefficients are cached in the object.
\<close>

definition solveAlphaBeta ::
  "physics \<Rightarrow> jsnum \<Rightarrow> jsnum \<Rightarrow> jsnum \<Rightarrow> jsnum \<Rightarrow> js_error + ((jsnum \<times> jsnum) \<times> physics)" where
  "solveAlphaBeta p ecoCost fullCost ecoSpd fullSpd =
     (if strict_eq ecoSpd fullSpd then Inl (Error ''Speeds must differ'')
      else if \<not> truthy ecoCost \<or> \<not> truthy fullCost \<or> \<not> truthy ecoSpd \<or> \<not> truthy fullSpd
      then Inl (Error ''All parameters must be provided'')
      else
        (let s1 = ecoSpd; s2 = fullSpd;
             x1 = Math_pow s1 (Fin 3);
             y1 = Math_pow s1 (waveExp p);
             x2 = Math_pow s2 (Fin 3);
             y2 = Math_pow s2 (waveExp p);
             det = jsub (jmul x1 y2) (jmul x2 y1);
             a = jdiv (jsub (jmul ecoCost y2) (jmul fullCost y1)) det;
             b = jdiv (jsub (jmul fullCost x1) (jmul ecoCost x2)) det
         in Inr ((a, b), p\<lparr>alpha := Some a, beta := Some b\<rparr>)))"

definition calculateBaseCost :: "physics \<Rightarrow> jsnum \<Rightarrow> js_error + (jsnum \<times> physics)" where
  "calculateBaseCost p spd =
     (case (if alpha p = None \<or> beta p = None
            then (case solveAlphaBeta p (costEco p) (costFull p) (ecoSpeed p) (fullSpeed p) of
                    Inl e \<Rightarrow> Inl e
                  | Inr (ab, p') \<Rightarrow> Inr p')
            else Inr p) of
        Inl e \<Rightarrow> Inl e
      | Inr p' \<Rightarrow>
          (let clampedSpeed = Math_max (Fin 0.1) (Math_min spd (jmul (fullSpeed p') (Fin 1.2)))
           in Inr (jadd (jmul (absent_as_nan (alpha p')) (Math_pow clampedSpeed (Fin 3)))
                        (jmul (absent_as_nan (beta p')) (Math_pow clampedSpeed (waveExp p'))),
                   p')))"

text \<open>The object \<open>calculateCostAt\<close> returns.\<close>

record cost_analysis =
  clean :: jsnum
  fouled :: jsnum
  foulingIncrease :: jsnum
  speedReduction :: jsnum
  roughness :: jsnum

definition froude :: "physics \<Rightarrow> jsnum \<Rightarrow> jsnum" where
  "froude p spd =
     jdiv (jmul spd (Fin KNOTS_TO_MPS)) (Math_sqrt (jmul (Fin GRAVITY) (length_p p)))"

definition calculateCostAt ::
  "physics \<Rightarrow> jsnum \<Rightarrow> nat \<Rightarrow> js_error + (cost_analysis \<times> physics)" where
  "calculateCostAt p spd frLevel =
     (case calculateBaseCost p spd of
        Inl e \<Rightarrow> Inl e
      | Inr (baseCost, p') \<Rightarrow>
          (let ks = index_or_zero frKsMapping frLevel;
               Fr = froude p' spd;
               reduction = (if jgt Fr (Fin 0.15)
                            then Math_max (Fin 0.3)
                                   (jsub (Fin 1.0) (jmul (Fin 2.0) (jsub Fr (Fin 0.15))))
                            else Fin 1.0);
               baseFoulingIncrease = index_or_zero foulingIncreases frLevel;
               effectiveFoulingIncrease = jmul baseFoulingIncrease reduction;
               costFouledHr = jmul baseCost (jadd (Fin 1) effectiveFoulingIncrease)
           in Inr (\<lparr>clean = baseCost, fouled = costFouledHr,
                     foulingIncrease = effectiveFoulingIncrease,
                     speedReduction = reduction, roughness = ks\<rparr>, p')))"

section \<open>The adaptive model (class AdaptiveFoulingModel)\<close>

text \<open>
  Values other than numbers that reach an arithmetic operator in the source: the object
  that \<open>calculateCostAt\<close> returns, and a member that a property lookup on an object
  literal inherits from \<open>Object.prototype\<close> (a function, or the prototype itself for
  \<open>__proto__\<close>). An arithmetic operator converts its operands with \<open>ToNumber\<close>: an
  object and a function are first converted to a string (\<open>[object Object]\<close>, the text of
  the function), and such a string is no numeral, so the result is NaN.
\<close>

datatype jsval = Number jsnum | Object cost_analysis | Inherited string

fun ToNumber :: "jsval \<Rightarrow> jsnum" where
  "ToNumber (Number n) = n"
| "ToNumber (Object c) = NaN"
| "ToNumber (Inherited k) = NaN"

definition Object_prototype_keys :: "string list" where
  "Object_prototype_keys =
     [''constructor'', ''__defineGetter__'', ''__defineSetter__'', ''hasOwnProperty'',
      ''__lookupGetter__'', ''__lookupSetter__'', ''isPrototypeOf'', ''propertyIsEnumerable'',
      ''toString'', ''valueOf'', ''__proto__'', ''toLocaleString'']"

text \<open>The lookup \<open>weatherMultipliers[weather]\<close>; \<open>None\<close> is \<open>undefined\<close>.\<close>

definition weatherMultipliers :: "string \<Rightarrow> jsval option" where
  "weatherMultipliers w =
     (if w = ''calm'' then Some (Number (Fin 1.0))
      else if w = ''moderate'' then Some (Number (Fin 1.05))
      else if w = ''rough'' then Some (Number (Fin 1.15))
      else if w = ''storm'' then Some (Number (Fin 1.30))
      else if w \<in> set Object_prototype_keys then Some (Inherited w)
      else None)"

fun truthy_val :: "jsval \<Rightarrow> bool" where
  "truthy_val (Number n) = truthy n"
| "truthy_val (Object c) = True"
| "truthy_val (Inherited k) = True"

text \<open>The row of table \<open>fouling_models\<close> that \<open>loadModelState\<close> reads, if there is one.\<close>

record model_state =
  correction_factor :: "jsnum option"
  fouling_accumulation_rate :: "jsnum option"
  confidence_score :: "jsnum option"
  training_data_count :: "nat option"

text \<open>An entry of the training data buffer.\<close>

record dataPoint =
  dp_actual :: jsnum
  dp_predicted :: jsnum
  dp_speed :: jsnum
  dp_weather :: string
  dp_frLevel :: nat
  dp_error :: jsnum
  dp_timestamp :: string

text \<open>
  The state of an \<open>AdaptiveFoulingModel\<close> object. Writing the state to the database
  (\<open>saveModelState\<close>, which catches its own failures) and the console output are effects
  on collaborators and are not part of the state.
\<close>

record model =
  phys :: physics
  baseAlpha :: jsnum
  baseBeta :: jsnum
  correctionFactor :: jsnum
  foulingAccumulationRate :: jsnum
  confidence :: jsnum
  trainingDataCount :: nat
  daysSinceClean :: jsnum
  trainingDataBuffer :: "dataPoint list"
  maxBufferSize :: nat

text \<open>\<open>now\<close> is the time value of \<open>new Date()\<close>, in milliseconds.\<close>

definition calculateDaysSinceClean :: "jsnum \<Rightarrow> jsnum option \<Rightarrow> jsnum" where
  "calculateDaysSinceClean now lastCleanDate =
     (case lastCleanDate of
        None \<Rightarrow> Fin 0
      | Some cleaned \<Rightarrow>
          Math_max (Fin 0) (Math_floor (jdiv (jsub now cleaned) (Fin (1000 * 60 * 60 * 24)))))"

fun join :: "string \<Rightarrow> string list \<Rightarrow> string" where
  "join sep [] = []"
| "join sep [x] = x"
| "join sep (x # y # ys) = x @ sep @ join sep (y # ys)"

definition missingFields :: "vessel \<Rightarrow> string list" where
  "missingFields v =
     map fst (filter (\<lambda>(name, x). \<not> truthy_opt x)
       [(''cost_eco'', cost_eco v), (''cost_full'', cost_full v),
        (''eco_speed'', eco_speed v), (''full_speed'', full_speed v)])"

definition stored_or :: "model_state option \<Rightarrow> (model_state \<Rightarrow> jsnum option) \<Rightarrow> jsnum \<Rightarrow> jsnum" where
  "stored_or modelState field d =
     (case modelState of None \<Rightarrow> d | Some row \<Rightarrow> or_default (field row) d)"

definition new_AdaptiveFoulingModel ::
  "vessel \<Rightarrow> model_state option \<Rightarrow> jsnum \<Rightarrow> js_error + model" where
  "new_AdaptiveFoulingModel v modelState now =
     (if missingFields v \<noteq> []
      then Inl (Error (''Vessel missing required parameters: '' @ join '', '' (missingFields v)))
      else
        (case solveAlphaBeta (new_FoulingPhysics v)
                (absent_as_nan (cost_eco v)) (absent_as_nan (cost_full v))
                (absent_as_nan (eco_speed v)) (absent_as_nan (full_speed v)) of
           Inl e \<Rightarrow> Inl e
         | Inr ((a, b), p) \<Rightarrow>
             Inr \<lparr>phys = p, baseAlpha = a, baseBeta = b,
                  correctionFactor = stored_or modelState correction_factor (Fin 1.0),
                  foulingAccumulationRate = stored_or modelState fouling_accumulation_rate (Fin 1.0),
                  confidence = stored_or modelState confidence_score (Fin 0.0),
                  trainingDataCount =
                    (case modelState of None \<Rightarrow> 0
                     | Some row \<Rightarrow> (case training_data_count row of None \<Rightarrow> 0 | Some n \<Rightarrow> n)),
                  daysSinceClean = calculateDaysSinceClean now (last_clean_date v),
                  trainingDataBuffer = [],
                  maxBufferSize = 100\<rparr>))"

text \<open>\<open>estimateFRLevel(daysSinceClean = null)\<close>: without an argument the object's own day
  count is used.\<close>

definition estimateFRLevel :: "model \<Rightarrow> jsnum option \<Rightarrow> nat" where
  "estimateFRLevel m days =
     (let d = (case days of None \<Rightarrow> daysSinceClean m | Some x \<Rightarrow> x);
          adjustedDays = jmul d (foulingAccumulationRate m)
      in if jlt adjustedDays (Fin 30) then 0
         else if jlt adjustedDays (Fin 60) then 1
         else if jlt adjustedDays (Fin 120) then 2
         else if jlt adjustedDays (Fin 180) then 3
         else if jlt adjustedDays (Fin 270) then 4
         else 5)"

text \<open>The object \<open>predict\<close> returns when \<open>returnComponents\<close> is set.\<close>

record prediction =
  pr_predicted :: jsnum
  pr_base :: jsval
  pr_frLevel :: nat
  pr_correctionFactor :: jsnum
  pr_weatherMultiplier :: jsval
  pr_confidence :: jsnum

datatype predict_result = Cost jsnum | Components prediction

text \<open>
  \<open>predict(speed, weather = 'calm', returnComponents = false)\<close>. The weather is a string,
  or \<open>None\<close> when the argument is omitted. \<open>baseCost\<close> is bound to the whole object that
  \<open>calculateCostAt\<close> returns, and that object is the left operand of the product.
\<close>

definition predictComponents ::
  "model \<Rightarrow> jsnum \<Rightarrow> string option \<Rightarrow> js_error + (prediction \<times> model)" where
  "predictComponents m spd weather =
     (let w = (case weather of None \<Rightarrow> ''calm'' | Some s \<Rightarrow> s);
          frLevel = estimateFRLevel m None
      in case calculateCostAt (phys m) spd frLevel of
           Inl e \<Rightarrow> Inl e
         | Inr (c, p') \<Rightarrow>
             (let baseCost = Object c;
                  weatherMultiplier =
                    (case weatherMultipliers w of
                       None \<Rightarrow> Number (Fin 1.05)
                     | Some x \<Rightarrow> if truthy_val x then x else Number (Fin 1.05));
                  predictedCost =
                    jmul (jmul (ToNumber baseCost) (correctionFactor m)) (ToNumber weatherMultiplier)
              in Inr (\<lparr>pr_predicted = predictedCost, pr_base = baseCost, pr_frLevel = frLevel,
                        pr_correctionFactor = correctionFactor m,
                        pr_weatherMultiplier = weatherMultiplier,
                        pr_confidence = confidence m\<rparr>,
                      m\<lparr>phys := p'\<rparr>)))"

definition predict ::
  "model \<Rightarrow> jsnum \<Rightarrow> string option \<Rightarrow> bool \<Rightarrow> js_error + (predict_result \<times> model)" where
  "predict m spd weather returnComponents =
     (case predictComponents m spd weather of
        Inl e \<Rightarrow> Inl e
      | Inr (r, m') \<Rightarrow>
          Inr (if returnComponents then Components r else Cost (pr_predicted r), m'))"

definition updateConfidence :: "model \<Rightarrow> jsnum \<Rightarrow> model" where
  "updateConfidence m relativeError =
     (let errorThreshold = Fin 0.15
      in if jlt relativeError errorThreshold
         then (let improvement = jmul (jsub errorThreshold relativeError) (Fin 100)
               in m\<lparr>confidence :=
                      Math_min (Fin 100) (jadd (confidence m) (jmul improvement (Fin 0.5)))\<rparr>)
         else (let degradation = jmul (jsub relativeError errorThreshold) (Fin 100)
               in m\<lparr>confidence :=
                      Math_max (Fin 0) (jsub (confidence m) (jmul degradation (Fin 0.3)))\<rparr>))"

definition storeTrainingData :: "model \<Rightarrow> dataPoint \<Rightarrow> model" where
  "storeTrainingData m d =
     (let pushed = trainingDataBuffer m @ [d]
      in m\<lparr>trainingDataBuffer :=
             (if length pushed > maxBufferSize m then tl pushed else pushed)\<rparr>)"

definition shouldRetrain :: "model \<Rightarrow> bool" where
  "shouldRetrain m =
     (trainingDataCount m mod 10 = 0 \<or>
      (jlt (confidence m) (Fin 50) \<and> length (trainingDataBuffer m) \<ge> 5))"

text \<open>
  \<open>updateFoulingAccumulationRate\<close>. The entries with a fouling level above zero are
  grouped by level in an object; \<open>Object.keys\<close> lists its integer keys in ascending
  order, and each group keeps the order in which its errors were pushed.
\<close>

definition errorsByFR :: "dataPoint list \<Rightarrow> (nat \<times> jsnum list) list" where
  "errorsByFR dataPoints =
     map (\<lambda>k. (k, map dp_error (filter (\<lambda>d. dp_frLevel d = k) dataPoints)))
         (sort (remdups (map dp_frLevel dataPoints)))"

definition avgError :: "jsnum list \<Rightarrow> jsnum" where
  "avgError errors = jdiv (foldl jadd (Fin 0) errors) (Fin (real (length errors)))"

definition updateFoulingAccumulationRate :: "model \<Rightarrow> model" where
  "updateFoulingAccumulationRate m =
     (let dataPoints = filter (\<lambda>d. dp_frLevel d > 0) (trainingDataBuffer m)
      in if length dataPoints < 3 then m
         else
           (let groups = errorsByFR dataPoints;
                totalAdjustment =
                  foldl (\<lambda>total (k, errors). jadd total (jmul (avgError errors) (Fin 0.5)))
                        (Fin 0) groups;
                adjustmentCount = length groups
            in if adjustmentCount > 0
               then (let adjustment = jdiv totalAdjustment (Fin (real adjustmentCount))
                     in m\<lparr>foulingAccumulationRate :=
                            Math_max (Fin 0.5) (Math_min (Fin 2.0)
                              (jmul (foulingAccumulationRate m) (jadd (Fin 1) adjustment)))\<rparr>)
               else m))"

definition retrainModel :: "model \<Rightarrow> model" where
  "retrainModel m =
     (if length (trainingDataBuffer m) < 3 then m else updateFoulingAccumulationRate m)"

text \<open>What \<open>updateFromReading\<close> returns after an update.\<close>

record reading_update =
  ru_error :: jsnum
  ru_correctionFactor :: jsnum
  ru_confidence :: jsnum

text \<open>
  \<open>updateFromReading(actualFuelRate, speed, weather = 'calm', timestamp = null)\<close>. The
  result is \<open>None\<close> where the source returns without a value. \<open>nowIso\<close> is the text of
  the current time, used when no timestamp is given.
\<close>

definition updateFromReading ::
  "model \<Rightarrow> jsnum \<Rightarrow> jsnum \<Rightarrow> string option \<Rightarrow> string option \<Rightarrow> string
     \<Rightarrow> js_error + (reading_update option \<times> model)" where
  "updateFromReading m actualFuelRate spd weather timestamp nowIso =
     (if jle actualFuelRate (Fin 0) then Inr (None, m)
      else
        (let w = (case weather of None \<Rightarrow> ''calm'' | Some s \<Rightarrow> s)
         in case predictComponents m spd (Some w) of
              Inl e \<Rightarrow> Inl e
            | Inr (pr, m0) \<Rightarrow>
                (let predicted = pr_predicted pr;
                     absoluteError = Math_abs (jsub actualFuelRate predicted);
                     relativeError = jdiv absoluteError predicted;
                     signedError = jdiv (jsub actualFuelRate predicted) predicted;
                     baseLearningRate = Fin 0.1;
                     confidenceAdjustment =
                       Math_max (Fin 0.5) (jsub (Fin 1) (jdiv (confidence m0) (Fin 100)));
                     learningRate = jmul baseLearningRate confidenceAdjustment;
                     correctionUpdate = jadd (Fin 1) (jmul signedError learningRate);
                     m1 = m0\<lparr>correctionFactor :=
                               Math_max (Fin 0.3) (Math_min (Fin 3.0)
                                 (jadd (jmul (correctionFactor m0) (jsub (Fin 1) learningRate))
                                       (jmul correctionUpdate learningRate)))\<rparr>;
                     m2 = updateConfidence m1 relativeError;
                     m3 = storeTrainingData m2
                            \<lparr>dp_actual = actualFuelRate, dp_predicted = predicted,
                             dp_speed = spd, dp_weather = w, dp_frLevel = pr_frLevel pr,
                             dp_error = relativeError,
                             dp_timestamp =
                               (case timestamp of None \<Rightarrow> nowIso
                                | Some t \<Rightarrow> if t = [] then nowIso else t)\<rparr>;
                     m4 = m3\<lparr>trainingDataCount := trainingDataCount m3 + 1\<rparr>;
                     m5 = (if shouldRetrain m4 then retrainModel m4 else m4)
                 in Inr (Some \<lparr>ru_error = relativeError,
                                ru_correctionFactor = correctionFactor m5,
                                ru_confidence = confidence m5\<rparr>, m5))))"

text \<open>
  \<open>calculateExtraCostPerDay\<close>: \<open>cleanCost\<close> is again the object of \<open>calculateCostAt\<close>,
  and \<open>predict\<close> is called with the speed only.
\<close>

definition calculateExtraCostPerDay :: "model \<Rightarrow> js_error + (jsnum \<times> model)" where
  "calculateExtraCostPerDay m =
     (let currentSpeed = ecoSpeed (phys m)
      in case calculateCostAt (phys m) currentSpeed 0 of
           Inl e \<Rightarrow> Inl e
         | Inr (c, p') \<Rightarrow>
             (let cleanCost = Object c
              in case predictComponents (m\<lparr>phys := p'\<rparr>) currentSpeed None of
                   Inl e \<Rightarrow> Inl e
                 | Inr (pr, m') \<Rightarrow>
                     (let currentCost = pr_predicted pr
                      in Inr (Math_max (Fin 0)
                                (jmul (jsub currentCost (ToNumber cleanCost)) (Fin 24)),
                              m'))))"

text \<open>A caller that feeds a list of readings to one object, one call after the other.\<close>

fun updateFromReadings ::
  "model \<Rightarrow> (jsnum \<times> jsnum \<times> string option \<times> string option \<times> string) list
     \<Rightarrow> js_error + model" where
  "updateFromReadings m [] = Inr m"
| "updateFromReadings m ((actualFuelRate, spd, weather, timestamp, nowIso) # rest) =
     (case updateFromReading m actualFuelRate spd weather timestamp nowIso of
        Inl e \<Rightarrow> Inl e
      | Inr (r, m') \<Rightarrow> updateFromReadings m' rest)"

section \<open>A concrete vessel\<close>

text \<open>
  A vessel of 88.29 m with a wave exponent of 4, calibrated at 10 knots (1000 per hour)
  and 20 knots (12000 per hour), last cleaned at time 0. With these values every quantity
  of the model is a rational number: \<open>g \<times> length\<close> is the square of 29.43, and the
  calibration gives \<open>alpha = 0.5\<close> and \<open>beta = 0.05\<close>. \<open>example_model\<close> is the object the
  constructor builds for it 100 days after the clean when no model row is stored.
\<close>

definition example_vessel :: vessel where
  "example_vessel =
     \<lparr>length_v = Fin 88.29, beam_v = Fin 16, draft_v = Fin 5.2, cb_v = Fin 0.62,
      displacement_v = Some (Fin 4700), wave_exp = Some (Fin 4),
      vessel_category = Some ''cargo'',
      eco_speed = Some (Fin 10), full_speed = Some (Fin 20),
      cost_eco = Some (Fin 1000), cost_full = Some (Fin 12000),
      last_clean_date = Some (Fin 0)\<rparr>"

definition example_physics :: physics where
  "example_physics =
     \<lparr>length_p = Fin 88.29, beam = Fin 16, draft = Fin 5.2, cb = Fin 0.62,
      displacement = Fin 4700, waveExp = Fin 4, vesselCategory = ''cargo'',
      ecoSpeed = Fin 10, fullSpeed = Fin 20, costEco = Fin 1000, costFull = Fin 12000,
      alpha = None, beta = None\<rparr>"

definition example_model :: model where
  "example_model =
     \<lparr>phys = example_physics\<lparr>alpha := Some (Fin 0.5), beta := Some (Fin 0.05)\<rparr>,
      baseAlpha = Fin 0.5, baseBeta = Fin 0.05,
      correctionFactor = Fin 1, foulingAccumulationRate = Fin 1, confidence = Fin 0,
      trainingDataCount = 0, daysSinceClean = Fin 100, trainingDataBuffer = [],
      maxBufferSize = 100\<rparr>"

definition example_cost :: cost_analysis where
  "example_cost =
     \<lparr>clean = Fin 1000, fouled = Fin (19609771 / 14715),
      foulingIncrease = Fin (4894771 / 14715000),
      speedReduction = Fin (699253 / 735750),
      roughness = Fin (1 / 10000)\<rparr>"

text \<open>The six buckets of the fouling level, as the specification lists them.\<close>

definition fouling_bucket :: "real \<Rightarrow> nat" where
  "fouling_bucket x =
     (if x < 30 then 0 else if x < 60 then 1 else if x < 120 then 2
      else if x < 180 then 3 else if x < 270 then 4 else 5)"

text \<open>The concrete vessel with a clean date that lies after the time of construction.\<close>

definition future_clean_vessel :: vessel where
  "future_clean_vessel = example_vessel\<lparr>last_clean_date := Some (Fin 9000000000)\<rparr>"

text \<open>The numbers that \<open>!x\<close> takes for missing: zero and NaN.\<close>

definition falsy_number :: "jsnum \<Rightarrow> bool" where
  "falsy_number x = (x = Fin 0 \<or> x = NaN)"

text \<open>The concrete vessel with a wave exponent of 3.\<close>

definition cubic_vessel :: vessel where
  "cubic_vessel = example_vessel\<lparr>wave_exp := Some (Fin 3)\<rparr>"

text \<open>
  The retraining rule in the words of the specification: the signed relative error of an
  observation is \<open>(actual - predicted) / predicted\<close>; with at least three observations of
  a fouling level above zero the new rate is
  \<open>clamp(rate \<times> (1 + 0.5 \<times> A), 0.5, 2.0)\<close>, where \<open>A\<close> is the average, over the
  fouling levels present, of the mean signed error of each level; otherwise the rate stays.
\<close>

definition signedError :: "dataPoint \<Rightarrow> jsnum" where
  "signedError d = jdiv (jsub (dp_actual d) (dp_predicted d)) (dp_predicted d)"

definition claimed_retrained_rate :: "model \<Rightarrow> jsnum" where
  "claimed_retrained_rate m =
     (let dataPoints = filter (\<lambda>d. dp_frLevel d > 0) (trainingDataBuffer m)
      in if length dataPoints < 3 then foulingAccumulationRate m
         else
           (let levels = sort (remdups (map dp_frLevel dataPoints));
                groupMean = (\<lambda>k. avgError (map signedError
                                      (filter (\<lambda>d. dp_frLevel d = k) dataPoints)));
                A = jdiv (foldl jadd (Fin 0) (map groupMean levels))
                         (Fin (real (length levels)))
            in Math_max (Fin 0.5) (Math_min (Fin 2.0)
                 (jmul (foulingAccumulationRate m)
                       (jadd (Fin 1) (jmul (Fin 0.5) A))))))"

text \<open>
  An observation in which a prediction of 100 meets a consumption of 80, with the error
  field computed from these two numbers as \<open>updateFromReading\<close> computes it, and the
  concrete vessel with three such observations written into its buffer by hand. No run
  stores such an observation as long as the prediction is NaN.
\<close>

definition overpredicted :: dataPoint where
  "overpredicted =
     \<lparr>dp_actual = Fin 80, dp_predicted = Fin 100, dp_speed = Fin 10, dp_weather = ''calm'',
      dp_frLevel = 2, dp_error = Fin 0.2, dp_timestamp = ''t''\<rparr>"

definition overpredicting_model :: model where
  "overpredicting_model =
     example_model\<lparr>trainingDataBuffer := [overpredicted, overpredicted, overpredicted]\<rparr>"





section \<open>Double-precision arithmetic\<close>

text \<open>
  A JavaScript number is an IEEE 754 binary64 value, and every arithmetic operation
  returns the exact result rounded to the nearest such value, ties to the even
  significand. \<open>round_double\<close> is that rounding: the spacing of the doubles around \<open>x\<close> is
  \<open>ulp x\<close> (52 fraction bits; the exponent is held at \<open>-1022\<close> in the subnormal range), and a
  rounded magnitude of \<open>2 ^ 1024\<close> or more overflows to an infinity. The sign of a zero
  is not tracked: a zero is the positive zero, as it is for the difference of two equal
  numbers.
\<close>

definition round_half_even :: "real \<Rightarrow> int" where
  "round_half_even y =
     (let f = \<lfloor>y\<rfloor>
      in if y - of_int f < 1 / 2 then f
         else if 1 / 2 < y - of_int f then f + 1
         else if even f then f else f + 1)"

definition binade :: "real \<Rightarrow> int" where
  "binade x = max \<lfloor>log 2 \<bar>x\<bar>\<rfloor> (- 1022)"

definition ulp :: "real \<Rightarrow> real" where
  "ulp x = 2 powr (of_int (binade x - 52))"

definition round_double :: "real \<Rightarrow> jsnum" where
  "round_double x =
     (if x = 0 then Fin 0
      else (let r = ulp x * of_int (round_half_even (x / ulp x))
            in if 2 ^ 1024 \<le> \<bar>r\<bar> then (if 0 < x then PInf else NInf) else Fin r))"

definition unit_roundoff :: real where "unit_roundoff = 1 / 2 ^ 53"
definition underflow_unit :: real where "underflow_unit = 1 / 2 ^ 1075"

text \<open>
  The four arithmetic operators on doubles: the exact operation on \<open>jsnum\<close>, rounded.
  Infinities and NaN pass through unchanged.
\<close>

fun round_num :: "jsnum \<Rightarrow> jsnum" where
  "round_num (Fin x) = round_double x"
| "round_num x = x"

definition dadd :: "jsnum \<Rightarrow> jsnum \<Rightarrow> jsnum" where
  "dadd x y = round_num (jadd x y)"

definition dsub :: "jsnum \<Rightarrow> jsnum \<Rightarrow> jsnum" where
  "dsub x y = round_num (jsub x y)"

definition dmul :: "jsnum \<Rightarrow> jsnum \<Rightarrow> jsnum" where
  "dmul x y = round_num (jmul x y)"

definition ddiv :: "jsnum \<Rightarrow> jsnum \<Rightarrow> jsnum" where
  "ddiv x y = round_num (jdiv x y)"

text \<open>
  \<open>solveAlphaBeta\<close> and \<open>calculateBaseCost\<close> once more, statement by statement as above,
  with every product, difference, quotient and sum rounded, and the literals \<open>0.1\<close> and
  \<open>1.2\<close> read as the doubles nearest to them. ECMAScript leaves the precision of
  \<open>Math.pow\<close> to the implementation, so the function is a parameter \<open>pw\<close> here.
\<close>

definition solveAlphaBeta_double ::
  "(jsnum \<Rightarrow> jsnum \<Rightarrow> jsnum) \<Rightarrow> physics \<Rightarrow> jsnum \<Rightarrow> jsnum \<Rightarrow> jsnum \<Rightarrow> jsnum
     \<Rightarrow> js_error + ((jsnum \<times> jsnum) \<times> physics)" where
  "solveAlphaBeta_double pw p ecoCost fullCost ecoSpd fullSpd =
     (if strict_eq ecoSpd fullSpd then Inl (Error ''Speeds must differ'')
      else if \<not> truthy ecoCost \<or> \<not> truthy fullCost \<or> \<not> truthy ecoSpd \<or> \<not> truthy fullSpd
      then Inl (Error ''All parameters must be provided'')
      else
        (let s1 = ecoSpd; s2 = fullSpd;
             x1 = pw s1 (Fin 3);
             y1 = pw s1 (waveExp p);
             x2 = pw s2 (Fin 3);
             y2 = pw s2 (waveExp p);
             det = dsub (dmul x1 y2) (dmul x2 y1);
             a = ddiv (dsub (dmul ecoCost y2) (dmul fullCost y1)) det;
             b = ddiv (dsub (dmul fullCost x1) (dmul ecoCost x2)) det
         in Inr ((a, b), p\<lparr>alpha := Some a, beta := Some b\<rparr>)))"

definition calculateBaseCost_double ::
  "(jsnum \<Rightarrow> jsnum \<Rightarrow> jsnum) \<Rightarrow> physics \<Rightarrow> jsnum \<Rightarrow> js_error + (jsnum \<times> physics)" where
  "calculateBaseCost_double pw p spd =
     (case (if alpha p = None \<or> beta p = None
            then (case solveAlphaBeta_double pw p (costEco p) (costFull p)
                         (ecoSpeed p) (fullSpeed p) of
                    Inl e \<Rightarrow> Inl e
                  | Inr (ab, p') \<Rightarrow> Inr p')
            else Inr p) of
        Inl e \<Rightarrow> Inl e
      | Inr p' \<Rightarrow>
          (let clampedSpeed =
                 Math_max (round_double 0.1)
                   (Math_min spd (dmul (fullSpeed p') (round_double 1.2)))
           in Inr (dadd (dmul (absent_as_nan (alpha p')) (pw clampedSpeed (Fin 3)))
                        (dmul (absent_as_nan (beta p')) (pw clampedSpeed (waveExp p'))),
                   p')))"

text \<open>
  Magnitudes far from overflow and underflow, and the tolerance within which the
  calibration points are met: \<open>c\<close> is the cost to reproduce, \<open>c'\<close> the other cost, \<open>xy\<close> the
  product of the two powers of the speed, \<open>S\<close> and \<open>d\<close> the sum and the difference of the
  two products that make up the determinant.
\<close>

definition moderate :: "real \<Rightarrow> bool" where
  "moderate z = (1 / 2 ^ 100 \<le> z \<and> z \<le> 2 ^ 100)"

definition tolerance :: "real \<Rightarrow> real \<Rightarrow> real \<Rightarrow> real \<Rightarrow> real \<Rightarrow> real" where
  "tolerance c c' xy S d =
     unit_roundoff * (2 * c + (28 * (c * S) + 38 * (c' * xy)) / \<bar>d\<bar>)"

section \<open>Arithmetic with NaN\<close>

lemma jadd_NaN_right [simp]: "jadd x NaN = NaN"
  by (cases x) simp_all

lemma jmul_NaN_right [simp]: "jmul x NaN = NaN"
  by (cases x) simp_all

lemma jdiv_NaN_right [simp]: "jdiv x NaN = NaN"
  by (cases x) simp_all

lemma jsub_NaN [simp]: "jsub x NaN = NaN" "jsub NaN y = NaN"
  by (simp_all add: jsub_def)

lemma jlt_NaN_right [simp]: "\<not> jlt x NaN"
  by (cases x) simp_all

lemma jle_NaN_right [simp]: "\<not> jle x NaN"
  by (cases x) simp_all

lemma Math_max_NaN_right [simp]: "Math_max x NaN = NaN"
  by (cases x) simp_all

lemma Math_min_NaN_right [simp]: "Math_min x NaN = NaN"
  by (cases x) simp_all

lemma truthy_iff: "truthy x \<longleftrightarrow> x \<noteq> Fin 0 \<and> x \<noteq> NaN"
  by (cases x) simp_all

section \<open>The concrete vessel, evaluated\<close>

lemma sqrt_gL: "sqrt (8661249 / 10000) = 2943 / 100"
  by (rule real_sqrt_unique) (simp_all add: power2_eq_square)


lemma solve_example:
  "solveAlphaBeta example_physics (Fin 1000) (Fin 12000) (Fin 10) (Fin 20)
     = Inr ((Fin 0.5, Fin 0.05),
            example_physics\<lparr>alpha := Some (Fin 0.5), beta := Some (Fin 0.05)\<rparr>)"
  by (simp add: solveAlphaBeta_def example_physics_def strict_eq_def pow_real_def jsub_def
      Let_def)


lemma frlevel_example: "estimateFRLevel example_model None = 2"
  by (simp add: estimateFRLevel_def example_model_def)

lemma cost_example:
  "calculateCostAt (phys example_model) (Fin 10) 2 = Inr (example_cost, phys example_model)"
  by (simp add: calculateCostAt_def calculateBaseCost_def example_model_def example_physics_def
      example_cost_def absent_as_nan_def pow_real_def froude_def GRAVITY_def KNOTS_TO_MPS_def
      index_or_zero_def frKsMapping_def foulingIncreases_def jgt_def jsub_def sqrt_gL Let_def)

lemma predictComponents_example:
  "predictComponents example_model (Fin 10) (Some ''calm'') =
     Inr (\<lparr>pr_predicted = NaN, pr_base = Object example_cost,
           pr_frLevel = 2, pr_correctionFactor = Fin 1,
           pr_weatherMultiplier = Number (Fin 1), pr_confidence = Fin 0\<rparr>, example_model)"
  apply (simp add: predictComponents_def frlevel_example cost_example weatherMultipliers_def
      Let_def)
  apply (simp add: example_model_def)
  done

section \<open>The product in \<open>predict\<close>\<close>

text \<open>
  Whatever the state and the arguments, the number \<open>predict\<close> computes is NaN: the left
  operand of its product is the object of \<open>calculateCostAt\<close>, not that object's
  \<open>fouled\<close> field.
\<close>

lemma predictComponents_NaN:
  "predictComponents m spd w = Inr (r, m') \<Longrightarrow> pr_predicted r = NaN"
  by (auto simp: predictComponents_def Let_def split: sum.splits prod.splits option.splits)

lemma predict_Cost_NaN:
  "predict m spd w False = Inr (res, m') \<Longrightarrow> res = Cost NaN"
  by (auto simp: predict_def predictComponents_NaN split: sum.splits prod.splits)

text \<open>
  C1. \<open>predict(speed, weather)\<close> should return the fouled cost of the physics model at
  the estimated fouling level, times the correction factor, times the weather multiplier.
  For the concrete vessel at 10 knots in calm weather that product is
  \<open>19609771 / 14715 \<times> 1 \<times> 1.0\<close> (about 1332.6); the source returns NaN.
\<close>

theorem predict_example_is_NaN:
  "predict example_model (Fin 10) (Some ''calm'') False = Inr (Cost NaN, example_model) \<and>
   (case calculateCostAt (phys example_model) (Fin 10) (estimateFRLevel example_model None) of
      Inl e \<Rightarrow> False
    | Inr (c, p) \<Rightarrow>
        jmul (jmul (fouled c) (correctionFactor example_model)) (Fin 1.0)
          = Fin (19609771 / 14715))"
  apply (simp add: predict_def predictComponents_example frlevel_example cost_example)
  apply (simp add: example_model_def example_cost_def)
  done

section \<open>Readings\<close>

text \<open>
  C7. A reading with \<open>actualFuelRate \<le> 0\<close> raises nothing and leaves the whole state as
  it was: the call returns without a value and the object is unchanged, for every speed,
  weather, timestamp and state.
\<close>

theorem updateFromReading_nonpositive_noop:
  "jle actualFuelRate (Fin 0) \<Longrightarrow>
     updateFromReading m actualFuelRate spd weather timestamp nowIso = Inr (None, m)"
  by (simp add: updateFromReading_def)

theorem updateFromReading_nonpositive_noop_witness:
  "jle (Fin (- 5)) (Fin 0) \<and>
   updateFromReading example_model (Fin (- 5)) (Fin 10) (Some ''storm'') None ''t''
     = Inr (None, example_model)"
  using updateFromReading_nonpositive_noop
    [of "Fin (- 5)" example_model "Fin 10" "Some ''storm''" None "''t''"]
  by simp

text \<open>
  Every reading that is accepted leaves NaN in the correction factor and in the
  confidence, because the prediction it is compared with is NaN.
\<close>

lemma retrainModel_keeps:
  "correctionFactor (retrainModel m) = correctionFactor m"
  "confidence (retrainModel m) = confidence m"
  by (simp_all add: retrainModel_def updateFoulingAccumulationRate_def Let_def)

lemma accepted_reading_NaN:
  assumes "updateFromReading m a spd w ts now = Inr (Some r, m')"
  shows "correctionFactor m' = NaN \<and> confidence m' = NaN"
  using assms
  by (auto simp: updateFromReading_def Let_def retrainModel_keeps storeTrainingData_def
      updateConfidence_def dest!: predictComponents_NaN
      split: if_splits sum.splits prod.splits)

lemma predictComponents_at_10:
  assumes "phys m = phys example_model" and "daysSinceClean m = Fin 100"
    and "foulingAccumulationRate m = Fin 1"
  shows "predictComponents m (Fin 10) (Some ''calm'') =
     Inr (\<lparr>pr_predicted = NaN, pr_base = Object example_cost,
           pr_frLevel = 2, pr_correctionFactor = correctionFactor m,
           pr_weatherMultiplier = Number (Fin 1), pr_confidence = confidence m\<rparr>, m)"
proof -
  have lvl: "estimateFRLevel m None = 2"
    using assms by (simp add: estimateFRLevel_def)
  show ?thesis
    using cost_example assms(1)
    by (simp add: predictComponents_def lvl weatherMultipliers_def Let_def)
qed

text \<open>
  The tenth reading retrains on ten buffered observations whose error is NaN and leaves
  NaN in the accumulation rate as well.
\<close>

lemma ten_readings_rate:
  "case updateFromReadings example_model
          (replicate 10 (Fin 1200, Fin 10, Some ''calm'', None, ''t'')) of
     Inl e \<Rightarrow> False
   | Inr m' \<Rightarrow> foulingAccumulationRate m' = NaN"
  apply (simp add: numeral_eq_Suc)
  apply (simp add: updateFromReading_def predictComponents_at_10 example_model_def
      jsub_def Let_def updateConfidence_def storeTrainingData_def shouldRetrain_def
      retrainModel_def updateFoulingAccumulationRate_def errorsByFR_def avgError_def)
  done

text \<open>
  C2. From the initial adaptive state (correction factor 1, accumulation rate 1,
  confidence 0) every sequence of readings should keep the correction factor in
  \<open>[0.3, 3.0]\<close>, the accumulation rate in \<open>[0.5, 2.0]\<close> and the confidence in
  \<open>[0, 100]\<close>. In the source the first reading of the concrete vessel, 1200 at 10 knots
  in calm weather, sets the correction factor and the confidence to NaN, and after ten
  such readings the accumulation rate is NaN too.
\<close>

theorem first_reading_breaks_bounds:
  "(case updateFromReading example_model (Fin 1200) (Fin 10) (Some ''calm'') None ''t'' of
      Inl e \<Rightarrow> False
    | Inr (r, m') \<Rightarrow> correctionFactor m' = NaN \<and> confidence m' = NaN) \<and>
   (case updateFromReadings example_model
           (replicate 10 (Fin 1200, Fin 10, Some ''calm'', None, ''t'')) of
      Inl e \<Rightarrow> False
    | Inr m' \<Rightarrow> foulingAccumulationRate m' = NaN) \<and>
   correctionFactor example_model = Fin 1 \<and>
   foulingAccumulationRate example_model = Fin 1 \<and>
   confidence example_model = Fin 0"
proof -
  have "case updateFromReading example_model (Fin 1200) (Fin 10) (Some ''calm'') None ''t'' of
          Inl e \<Rightarrow> False
        | Inr (r, m') \<Rightarrow> correctionFactor m' = NaN \<and> confidence m' = NaN"
    apply (simp add: updateFromReading_def predictComponents_example)
    apply (simp add: Let_def jsub_def updateConfidence_def storeTrainingData_def
        shouldRetrain_def)
    apply (simp add: example_model_def)
    done
  then show ?thesis
    using ten_readings_rate by (simp add: example_model_def)
qed

section \<open>The default weather\<close>

text \<open>
  C9. \<open>predict\<close> without a weather argument is \<open>predict\<close> with \<open>'calm'\<close>: the results
  are equal, the multiplier applied is 1.0, and the extra cost per day, which calls
  \<open>predict\<close> with the speed only, is computed with the calm multiplier.
\<close>

theorem predict_default_weather_is_calm:
  "predict m spd None returnComponents = predict m spd (Some ''calm'') returnComponents \<and>
   (\<forall>r m'. predictComponents m spd None = Inr (r, m') \<longrightarrow>
            pr_weatherMultiplier r = Number (Fin 1.0)) \<and>
   calculateExtraCostPerDay m =
     (case calculateCostAt (phys m) (ecoSpeed (phys m)) 0 of
        Inl e \<Rightarrow> Inl e
      | Inr (c, p') \<Rightarrow>
          (case predictComponents (m\<lparr>phys := p'\<rparr>) (ecoSpeed (phys m)) (Some ''calm'') of
             Inl e \<Rightarrow> Inl e
           | Inr (pr, m') \<Rightarrow>
               Inr (Math_max (Fin 0)
                      (jmul (jsub (pr_predicted pr) (ToNumber (Object c))) (Fin 24)), m')))"
proof -
  have same: "predictComponents m0 s None = predictComponents m0 s (Some ''calm'')" for m0 s
    by (simp add: predictComponents_def)
  have mult: "pr_weatherMultiplier r = Number (Fin 1.0)"
    if "predictComponents m spd None = Inr (r, m')" for r m'
    using that
    by (auto simp: predictComponents_def weatherMultipliers_def Let_def
        split: sum.splits prod.splits)
  show ?thesis
    unfolding calculateExtraCostPerDay_def predict_def Let_def same
    using mult by (simp add: same)
qed

theorem predict_default_weather_is_calm_witness:
  "predictComponents example_model (Fin 10) None =
     Inr (\<lparr>pr_predicted = NaN, pr_base = Object example_cost,
           pr_frLevel = 2, pr_correctionFactor = Fin 1,
           pr_weatherMultiplier = Number (Fin 1), pr_confidence = Fin 0\<rparr>, example_model) \<and>
   predict example_model (Fin 10) None True
     = predict example_model (Fin 10) (Some ''calm'') True"
  using predict_default_weather_is_calm [of example_model "Fin 10" True]
    predictComponents_example
  by (simp add: predictComponents_def)

section \<open>The fouling level\<close>

text \<open>
  C8. For a non-negative accumulation rate, in particular for every rate in
  \<open>[0.5, 2.0]\<close>, the estimated level does not decrease when the number of days grows, and
  it is the bucket of \<open>days \<times> rate\<close> against the thresholds 30, 60, 120, 180 and 270.
\<close>

theorem estimateFRLevel_monotone:
  assumes "foulingAccumulationRate m = Fin rate" and "0 \<le> rate" and "d1 \<le> d2"
  shows "estimateFRLevel m (Some (Fin d1)) \<le> estimateFRLevel m (Some (Fin d2)) \<and>
         estimateFRLevel m (Some (Fin d1)) = fouling_bucket (d1 * rate)"
proof -
  have "d1 * rate \<le> d2 * rate"
    using assms by (simp add: mult_right_mono)
  then show ?thesis
    using assms(1) by (simp add: estimateFRLevel_def fouling_bucket_def Let_def)
qed

theorem estimateFRLevel_monotone_witness:
  "foulingAccumulationRate example_model = Fin 1 \<and> (0::real) \<le> 1 \<and> (35::real) \<le> 65 \<and>
   estimateFRLevel example_model (Some (Fin 35)) = 1 \<and>
   estimateFRLevel example_model (Some (Fin 65)) = 2 \<and>
   estimateFRLevel example_model (Some (Fin 35)) \<le> estimateFRLevel example_model (Some (Fin 65))"
  using estimateFRLevel_monotone [of example_model 1 35 65]
  by (simp add: example_model_def estimateFRLevel_def)

lemma days_absent: "calculateDaysSinceClean now None = Fin 0"
  by (simp add: calculateDaysSinceClean_def)

lemma days_future:
  assumes "t < c"
  shows "calculateDaysSinceClean (Fin t) (Some (Fin c)) = Fin 0"
proof -
  have "(t - c) / 86400000 < 0"
    using assms by simp
  then have "\<lfloor>(t - c) / 86400000\<rfloor> < 0"
    by linarith
  then have "real_of_int \<lfloor>(t - c) / 86400000\<rfloor> < 0"
    by simp
  then show ?thesis
    by (simp add: calculateDaysSinceClean_def jsub_def not_less[symmetric])
qed

lemma constructed_days:
  "new_AdaptiveFoulingModel v row now = Inr m \<Longrightarrow>
     daysSinceClean m = calculateDaysSinceClean now (last_clean_date v)"
  by (auto simp: new_AdaptiveFoulingModel_def split: if_splits sum.splits prod.splits)

text \<open>
  C10. When the vessel has no last-clean date, or one that lies after the current time,
  the constructor sets the day count to 0 and the vessel is accepted; the estimated
  fouling level is then 0 whatever number the accumulation rate is.
\<close>

theorem no_or_future_clean_date_is_level_0:
  assumes "new_AdaptiveFoulingModel v row now = Inr m"
    and "last_clean_date v = None \<or>
         (\<exists>c t. last_clean_date v = Some (Fin c) \<and> now = Fin t \<and> t < c)"
  shows "daysSinceClean m = Fin 0 \<and>
         estimateFRLevel (m\<lparr>foulingAccumulationRate := Fin rate\<rparr>) None = 0"
proof -
  have "calculateDaysSinceClean now (last_clean_date v) = Fin 0"
    using assms(2) days_absent days_future by auto
  then have "daysSinceClean m = Fin 0"
    using constructed_days [OF assms(1)] by simp
  then show ?thesis
    by (simp add: estimateFRLevel_def)
qed

theorem no_or_future_clean_date_is_level_0_witness:
  "new_AdaptiveFoulingModel future_clean_vessel None (Fin 8640000000)
     = Inr (example_model\<lparr>daysSinceClean := Fin 0\<rparr>) \<and>
   last_clean_date future_clean_vessel = Some (Fin 9000000000) \<and>
   (8640000000::real) < 9000000000 \<and>
   estimateFRLevel
     (example_model\<lparr>daysSinceClean := Fin 0, foulingAccumulationRate := Fin 2\<rparr>) None = 0"
proof -
  have built: "new_AdaptiveFoulingModel future_clean_vessel None (Fin 8640000000)
     = Inr (example_model\<lparr>daysSinceClean := Fin 0\<rparr>)"
    unfolding new_AdaptiveFoulingModel_def future_clean_vessel_def
    apply (simp add: new_FoulingPhysics_def example_vessel_def absent_as_nan_def
        or_default_def estimateMissingParameters_def Let_def missingFields_def truthy_opt_def)
    apply (simp add: solve_example[unfolded example_physics_def, simplified]
        example_model_def example_physics_def stored_or_def days_future)
    done
  have "last_clean_date future_clean_vessel = None \<or>
        (\<exists>c t. last_clean_date future_clean_vessel = Some (Fin c) \<and>
               Fin 8640000000 = Fin t \<and> t < c)"
    by (simp add: future_clean_vessel_def)
  from no_or_future_clean_date_is_level_0 [OF built this, of 2] built
  show ?thesis by (simp add: future_clean_vessel_def)
qed

text \<open>The clean date decides nothing about whether the constructor accepts a vessel.\<close>

lemma clean_date_never_rejects:
  "(\<exists>e. new_AdaptiveFoulingModel (v\<lparr>last_clean_date := d\<rparr>) row now = Inl e) \<longleftrightarrow>
   (\<exists>e. new_AdaptiveFoulingModel v row now = Inl e)"
  by (auto simp: new_AdaptiveFoulingModel_def missingFields_def new_FoulingPhysics_def
      split: sum.splits prod.splits)

section \<open>Calibration\<close>

text \<open>
  C6, as the source has it. \<open>solveAlphaBeta\<close> throws exactly when the two speeds are
  equal or one of the four inputs is missing, which for a number means zero or NaN; in
  every other case, negative inputs included, it returns coefficients.
\<close>

theorem solveAlphaBeta_throws_iff:
  "((\<exists>e. solveAlphaBeta p ecoCost fullCost ecoSpd fullSpd = Inl e) \<longleftrightarrow>
      (ecoSpd = fullSpd \<or> falsy_number ecoCost \<or> falsy_number fullCost \<or>
       falsy_number ecoSpd \<or> falsy_number fullSpd)) \<and>
   ((\<exists>a b p'. solveAlphaBeta p ecoCost fullCost ecoSpd fullSpd = Inr ((a, b), p')) \<longleftrightarrow>
      \<not> (ecoSpd = fullSpd \<or> falsy_number ecoCost \<or> falsy_number fullCost \<or>
         falsy_number ecoSpd \<or> falsy_number fullSpd))"
  by (auto simp: solveAlphaBeta_def strict_eq_def truthy_iff falsy_number_def Let_def)

theorem solveAlphaBeta_throws_iff_witness:
  "solveAlphaBeta example_physics (Fin 0) (Fin 12000) (Fin 10) (Fin 20)
     = Inl (Error ''All parameters must be provided'') \<and>
   solveAlphaBeta example_physics (Fin 1000) (Fin 12000) (Fin 10) (Fin 10)
     = Inl (Error ''Speeds must differ'') \<and>
   falsy_number (Fin 0) \<and>
   (\<exists>a b p'. solveAlphaBeta example_physics (Fin 1000) (Fin 12000) (Fin 10) (Fin 20)
              = Inr ((a, b), p'))"
  using solveAlphaBeta_throws_iff [of example_physics "Fin 1000" "Fin 12000" "Fin 10" "Fin 20"]
  by (simp add: solveAlphaBeta_def strict_eq_def falsy_number_def)

text \<open>
  The claim as stated, that a non-positive input makes the call throw and that nothing
  else but equal speeds does, fails: an economic cost of \<open>-1000\<close> is non-positive and is
  accepted, and a cost of NaN is not non-positive and is refused.
\<close>

theorem solveAlphaBeta_negative_cost_accepted:
  "solveAlphaBeta example_physics (Fin (- 1000)) (Fin 12000) (Fin 10) (Fin 20)
     = Inr ((Fin (- 3.5), Fin 0.25),
            example_physics\<lparr>alpha := Some (Fin (- 3.5)), beta := Some (Fin 0.25)\<rparr>) \<and>
   jle (Fin (- 1000)) (Fin 0) \<and>
   solveAlphaBeta example_physics NaN (Fin 12000) (Fin 10) (Fin 20)
     = Inl (Error ''All parameters must be provided'') \<and>
   \<not> jle NaN (Fin 0)"
  by (simp add: solveAlphaBeta_def example_physics_def strict_eq_def pow_real_def jsub_def
      Let_def)

text \<open>
  The determinant of the calibration system is zero only for equal speeds or for a wave
  exponent of 3, where both columns of the system are the cube of the speed.
\<close>

lemma det_nonzero:
  fixes s1 s2 w :: real
  assumes "0 < s1" and "s1 < s2" and "w \<noteq> 3"
  shows "s1 ^ 3 * s2 powr w \<noteq> s2 ^ 3 * s1 powr w"
proof
  assume eq: "s1 ^ 3 * s2 powr w = s2 ^ 3 * s1 powr w"
  have pos: "0 < s2" using assms by simp
  have c1: "s1 ^ 3 = s1 powr 3" and c2: "s2 ^ 3 = s2 powr 3"
    using assms pos by simp_all
  have "s2 powr w / s2 powr 3 = s1 powr w / s1 powr 3"
    using eq assms pos unfolding c1 c2 by (simp add: field_simps)
  then have same: "s2 powr (w - 3) = s1 powr (w - 3)"
    by (simp add: powr_diff)
  show False
  proof (cases "3 < w")
    case True
    then have "s1 powr (w - 3) < s2 powr (w - 3)"
      using assms by (intro powr_less_mono2) simp_all
    with same show False by simp
  next
    case False
    with assms have "w - 3 < 0" by simp
    then have "s2 powr (w - 3) < s1 powr (w - 3)"
      using assms by (intro powr_less_mono2_neg) simp_all
    with same show False by simp
  qed
qed

lemma cramer:
  fixes x1 y1 x2 y2 c1 c2 :: real
  assumes "x1 * y2 - x2 * y1 \<noteq> 0"
  shows "(c1 * y2 - c2 * y1) / (x1 * y2 - x2 * y1) * x1
           + (c2 * x1 - c1 * x2) / (x1 * y2 - x2 * y1) * y1 = c1"
    and "(c1 * y2 - c2 * y1) / (x1 * y2 - x2 * y1) * x2
           + (c2 * x1 - c1 * x2) / (x1 * y2 - x2 * y1) * y2 = c2"
proof -
  let ?d = "x1 * y2 - x2 * y1"
  have "(c1 * y2 - c2 * y1) / ?d * x1 + (c2 * x1 - c1 * x2) / ?d * y1
          = (c1 * ?d) / ?d"
    by (simp add: add_divide_distrib[symmetric] algebra_simps)
  then show "(c1 * y2 - c2 * y1) / ?d * x1 + (c2 * x1 - c1 * x2) / ?d * y1 = c1"
    using assms by simp
  have "(c1 * y2 - c2 * y1) / ?d * x2 + (c2 * x1 - c1 * x2) / ?d * y2
          = (c2 * ?d) / ?d"
    by (simp add: add_divide_distrib[symmetric] algebra_simps)
  then show "(c1 * y2 - c2 * y1) / ?d * x2 + (c2 * x1 - c1 * x2) / ?d * y2 = c2"
    using assms by simp
qed

lemma clamp_inside:
  assumes "0.1 \<le> s" and "s \<le> hi * 1.2"
  shows "Math_max (Fin 0.1) (Math_min (Fin s) (jmul (Fin hi) (Fin 1.2))) = Fin s"
  using assms by auto

text \<open>
  Without rounding, that is in the arithmetic of the reals and not in that of the
  program, the calibration is exact for every wave exponent other than 3: the
  coefficients that \<open>solveAlphaBeta\<close> caches make \<open>calculateBaseCost\<close> return the economic
  cost at the economic speed and the full cost at the full speed. The statement about
  the program's own arithmetic follows in the section on double precision.
\<close>

lemma calibration_without_rounding:
  assumes "waveExp p = Fin w" and "0 < w" and "w \<noteq> 3"
    and "fullSpeed p = Fin s2"
    and "0.1 \<le> s1" and "s1 < s2" and "0 < c1" and "c1 < c2"
  shows "\<exists>a b p'. solveAlphaBeta p (Fin c1) (Fin c2) (Fin s1) (Fin s2) = Inr ((a, b), p') \<and>
           calculateBaseCost p' (Fin s1) = Inr (Fin c1, p') \<and>
           calculateBaseCost p' (Fin s2) = Inr (Fin c2, p')"
proof -
  have s1: "0 < s1" and s2: "0 < s2"
    using assms by simp_all
  define x1 where "x1 = s1 powr 3"
  define y1 where "y1 = s1 powr w"
  define x2 where "x2 = s2 powr 3"
  define y2 where "y2 = s2 powr w"
  define d where "d = x1 * y2 - x2 * y1"
  define a where "a = (c1 * y2 - c2 * y1) / d"
  define b where "b = (c2 * x1 - c1 * x2) / d"
  define p' where "p' = p\<lparr>alpha := Some (Fin a), beta := Some (Fin b)\<rparr>"
  have "s1 ^ 3 * s2 powr w \<noteq> s2 ^ 3 * s1 powr w"
    using det_nonzero [OF s1 assms(6) assms(3)] .
  then have d: "d \<noteq> 0"
    using s1 s2 by (simp add: d_def x1_def y1_def x2_def y2_def)
  have px1: "Math_pow (Fin s1) (Fin 3) = Fin x1" and py1: "Math_pow (Fin s1) (Fin w) = Fin y1"
    and px2: "Math_pow (Fin s2) (Fin 3) = Fin x2" and py2: "Math_pow (Fin s2) (Fin w) = Fin y2"
    using s1 s2 assms(2) by (simp_all add: pow_real_def x1_def y1_def x2_def y2_def)
  have solved: "solveAlphaBeta p (Fin c1) (Fin c2) (Fin s1) (Fin s2) = Inr ((Fin a, Fin b), p')"
    using assms(6,7,8) s1 s2 d
    by (simp add: solveAlphaBeta_def strict_eq_def assms(1) px1 py1 px2 py2 jsub_def Let_def
        a_def b_def p'_def d_def del: Math_pow.simps)
  have at1: "a * x1 + b * y1 = c1" and at2: "a * x2 + b * y2 = c2"
    using cramer [of x1 y2 x2 y1 c1 c2] d by (simp_all add: a_def b_def d_def)
  have fields: "alpha p' = Some (Fin a)" "beta p' = Some (Fin b)" "waveExp p' = Fin w"
    "fullSpeed p' = Fin s2"
    by (simp_all add: p'_def assms(1,4))
  have in1: "Math_max (Fin 0.1) (Math_min (Fin s1) (jmul (Fin s2) (Fin 1.2))) = Fin s1"
    using assms(5,6) s2 by (intro clamp_inside) simp_all
  have in2: "Math_max (Fin 0.1) (Math_min (Fin s2) (jmul (Fin s2) (Fin 1.2))) = Fin s2"
    using assms(5,6) s2 by (intro clamp_inside) simp_all
  have b1: "calculateBaseCost p' (Fin s1) = Inr (Fin c1, p')"
    unfolding calculateBaseCost_def
    apply (simp only: fields option.distinct simp_thms if_False sum.case prod.case Let_def
        in1 absent_as_nan_def option.case px1 py1)
    apply (simp add: at1)
    done
  have b2: "calculateBaseCost p' (Fin s2) = Inr (Fin c2, p')"
    unfolding calculateBaseCost_def
    apply (simp only: fields option.distinct simp_thms if_False sum.case prod.case Let_def
        in2 absent_as_nan_def option.case px2 py2)
    apply (simp add: at2)
    done
  from solved b1 b2 show ?thesis by blast
qed

lemma calibration_without_rounding_example:
  "waveExp example_physics = Fin 4 \<and> fullSpeed example_physics = Fin 20 \<and>
   solveAlphaBeta example_physics (Fin 1000) (Fin 12000) (Fin 10) (Fin 20)
     = Inr ((Fin 0.5, Fin 0.05), phys example_model) \<and>
   calculateBaseCost (phys example_model) (Fin 10) = Inr (Fin 1000, phys example_model) \<and>
   calculateBaseCost (phys example_model) (Fin 20) = Inr (Fin 12000, phys example_model)"
proof -
  have w: "waveExp example_physics = Fin 4" and f: "fullSpeed example_physics = Fin 20"
    by (simp_all add: example_physics_def)
  from calibration_without_rounding [OF w _ _ f, of 10 1000 12000]
  obtain a b p' where
    "solveAlphaBeta example_physics (Fin 1000) (Fin 12000) (Fin 10) (Fin 20) = Inr ((a, b), p')"
    "calculateBaseCost p' (Fin 10) = Inr (Fin 1000, p')"
    "calculateBaseCost p' (Fin 20) = Inr (Fin 12000, p')"
    by auto
  then show ?thesis
    using w f by (auto simp: solve_example example_model_def)
qed

text \<open>
  With a wave exponent of 3, which is positive, the system is singular: the determinant
  is 0, the two coefficients are the two infinities, and the base cost at the economic
  speed is NaN, not the economic cost.
\<close>

lemma singular_at_exponent_3:
  "new_FoulingPhysics cubic_vessel = example_physics\<lparr>waveExp := Fin 3\<rparr> \<and>
   solveAlphaBeta (example_physics\<lparr>waveExp := Fin 3\<rparr>)
       (Fin 1000) (Fin 12000) (Fin 10) (Fin 20)
     = Inr ((NInf, PInf),
            example_physics\<lparr>waveExp := Fin 3, alpha := Some NInf, beta := Some PInf\<rparr>) \<and>
   calculateBaseCost
       (example_physics\<lparr>waveExp := Fin 3, alpha := Some NInf, beta := Some PInf\<rparr>) (Fin 10)
     = Inr (NaN, example_physics\<lparr>waveExp := Fin 3, alpha := Some NInf, beta := Some PInf\<rparr>) \<and>
   (0.1::real) \<le> 10 \<and> (10::real) < 20 \<and> (0::real) < 1000 \<and> (1000::real) < 12000 \<and>
   (0::real) < 3"
  by (simp add: new_FoulingPhysics_def cubic_vessel_def example_vessel_def
      absent_as_nan_def or_default_def estimateMissingParameters_def
      solveAlphaBeta_def calculateBaseCost_def example_physics_def strict_eq_def
      pow_real_def jsub_def Let_def)

section \<open>Calibration in double precision\<close>

text \<open>Rounding to a double moves a number by at most half a unit in the last place.\<close>

lemma round_half_even_error: "\<bar>of_int (round_half_even y) - y\<bar> \<le> 1 / 2"
  unfolding round_half_even_def Let_def by (auto simp: abs_if) linarith+

lemma ulp_pos: "0 < ulp x"
  by (simp add: ulp_def)

lemma ulp_bound:
  assumes "x \<noteq> 0"
  shows "ulp x / 2 \<le> unit_roundoff * \<bar>x\<bar> + underflow_unit"
proof (cases "- 1022 \<le> \<lfloor>log 2 \<bar>x\<bar>\<rfloor>")
  case True
  then have b: "binade x = \<lfloor>log 2 \<bar>x\<bar>\<rfloor>"
    by (simp add: binade_def)
  have "2 powr (of_int \<lfloor>log 2 \<bar>x\<bar>\<rfloor>) \<le> 2 powr (log 2 \<bar>x\<bar>)"
    by (intro powr_mono) simp_all
  also have "\<dots> = \<bar>x\<bar>"
    using assms by simp
  finally have le: "2 powr (of_int \<lfloor>log 2 \<bar>x\<bar>\<rfloor>) \<le> \<bar>x\<bar>" .
  have "ulp x = 2 powr (of_int \<lfloor>log 2 \<bar>x\<bar>\<rfloor>) / 2 ^ 52"
    by (simp add: ulp_def b powr_diff)
  then have "ulp x / 2 = 2 powr (of_int \<lfloor>log 2 \<bar>x\<bar>\<rfloor>) / 2 ^ 53"
    by simp
  also have "\<dots> \<le> \<bar>x\<bar> / 2 ^ 53"
    using le by (simp add: divide_right_mono)
  finally show ?thesis
    by (simp add: unit_roundoff_def underflow_unit_def)
next
  case False
  then have b: "binade x = - 1022"
    by (simp add: binade_def)
  have "ulp x = 1 / 2 ^ 1074"
    by (simp add: ulp_def b powr_minus_divide)
  then have "ulp x / 2 = underflow_unit"
    by (simp add: underflow_unit_def)
  moreover have "0 \<le> unit_roundoff * \<bar>x\<bar>"
    by (simp add: unit_roundoff_def)
  ultimately show ?thesis by linarith
qed


lemma rounding_error:
  assumes "x \<noteq> 0"
  shows "\<bar>ulp x * of_int (round_half_even (x / ulp x)) - x\<bar>
           \<le> unit_roundoff * \<bar>x\<bar> + underflow_unit"
proof -
  have "ulp x * of_int (round_half_even (x / ulp x)) - x
          = ulp x * (of_int (round_half_even (x / ulp x)) - x / ulp x)"
    using ulp_pos [of x] by (simp add: algebra_simps)
  then have "\<bar>ulp x * of_int (round_half_even (x / ulp x)) - x\<bar>
          = ulp x * \<bar>of_int (round_half_even (x / ulp x)) - x / ulp x\<bar>"
    using ulp_pos [of x] by (simp add: abs_mult)
  also have "\<dots> \<le> ulp x * (1 / 2)"
    using ulp_pos [of x] round_half_even_error [of "x / ulp x"]
    by (intro mult_left_mono) simp_all
  also have "\<dots> \<le> unit_roundoff * \<bar>x\<bar> + underflow_unit"
    using ulp_bound [OF assms] by simp
  finally show ?thesis .
qed

lemma round_double_near:
  assumes "round_double x = Fin r"
  shows "\<bar>r - x\<bar> \<le> unit_roundoff * \<bar>x\<bar> + underflow_unit"
proof (cases "x = 0")
  case True
  with assms show ?thesis
    by (simp add: round_double_def unit_roundoff_def underflow_unit_def)
next
  case False
  with assms have "r = ulp x * of_int (round_half_even (x / ulp x))"
    by (auto simp: round_double_def Let_def split: if_splits)
  then show ?thesis
    using rounding_error [OF False] by simp
qed

lemma round_double_finite:
  assumes "\<bar>x\<bar> \<le> 2 ^ 1023"
  shows "\<exists>r. round_double x = Fin r"
proof (cases "x = 0")
  case True
  then show ?thesis by (simp add: round_double_def)
next
  case False
  define r where "r = ulp x * of_int (round_half_even (x / ulp x))"
  have "\<bar>r\<bar> \<le> \<bar>x\<bar> + \<bar>r - x\<bar>"
    by linarith
  also have "\<dots> \<le> \<bar>x\<bar> + (unit_roundoff * \<bar>x\<bar> + underflow_unit)"
    using rounding_error [OF False] by (simp add: r_def)
  also have "\<dots> \<le> 2 ^ 1023 + (unit_roundoff * 2 ^ 1023 + underflow_unit)"
    using assms by (simp add: unit_roundoff_def)
  also have "\<dots> < 2 ^ 1024"
    by (simp add: unit_roundoff_def underflow_unit_def)
  finally have "\<not> 2 ^ 1024 \<le> \<bar>r\<bar>" by simp
  then show ?thesis
    using False by (simp add: round_double_def Let_def r_def)
qed

text \<open>
  Error bounds over the reals for the steps of the calibration: a difference of two
  rounded products, a quotient of two perturbed numbers, and the cost recomputed from
  perturbed coefficients.
\<close>

lemma diff_of_products:
  fixes u \<eta> a b p q D :: real
  assumes u: "0 \<le> u" "u \<le> 1 / 8" and eta: "0 \<le> \<eta>" and ab: "0 \<le> a" "0 \<le> b"
    and p: "\<bar>p - a\<bar> \<le> u * a + \<eta>" and q: "\<bar>q - b\<bar> \<le> u * b + \<eta>"
    and D: "\<bar>D - (p - q)\<bar> \<le> u * \<bar>p - q\<bar> + \<eta>"
  shows "\<bar>D - (a - b)\<bar> \<le> 3 * u * (a + b) + 4 * \<eta>"
proof -
  define ua where "ua = u * a"
  define ub where "ub = u * b"
  define ue where "ue = u * \<eta>"
  define ur where "ur = u * \<bar>p - q\<bar>"
  have ua: "0 \<le> ua" "ua \<le> a / 8"
    using u ab mult_right_mono [of u "1 / 8" a] by (simp_all add: ua_def)
  have ub: "0 \<le> ub" "ub \<le> b / 8"
    using u ab mult_right_mono [of u "1 / 8" b] by (simp_all add: ub_def)
  have ue: "0 \<le> ue" "ue \<le> \<eta> / 8"
    using u eta mult_right_mono [of u "1 / 8" \<eta>] by (simp_all add: ue_def)
  have p': "\<bar>p - a\<bar> \<le> ua + \<eta>" and q': "\<bar>q - b\<bar> \<le> ub + \<eta>"
    and D': "\<bar>D - (p - q)\<bar> \<le> ur + \<eta>"
    using p q D by (simp_all add: ua_def ub_def ur_def)
  have pq: "\<bar>p - q\<bar> \<le> 2 * a + 2 * b + 2 * \<eta>"
    using p' q' ua ub ab by linarith
  have "ur \<le> u * (2 * a + 2 * b + 2 * \<eta>)"
    unfolding ur_def using pq u by (intro mult_left_mono) simp_all
  then have ur: "ur \<le> 2 * ua + 2 * ub + 2 * ue"
    by (simp add: ua_def ub_def ue_def algebra_simps)
  have "\<bar>D - (a - b)\<bar> \<le> 3 * ua + 3 * ub + 4 * \<eta>"
    using p' q' D' ur ue eta by linarith
  then show ?thesis
    by (simp add: ua_def ub_def algebra_simps)
qed


lemma scaled_le:
  fixes u x :: real
  assumes "0 \<le> u" "u \<le> 1 / 8" "0 \<le> x"
  shows "0 \<le> u * x" "u * x \<le> x / 8"
  using assms mult_right_mono [of u "1 / 8" x] by simp_all

lemma quotient_error:
  fixes u \<eta> K N D t A X :: real
  assumes u: "0 \<le> u" "u \<le> 1 / 8" and eta: "0 \<le> \<eta>"
    and K: "0 \<le> K" and X: "0 \<le> X" and t: "0 < t" "t = 1 / \<bar>D\<bar>"
    and N: "\<bar>N\<bar> \<le> 2 * K"
    and A: "\<bar>A - N / D\<bar> \<le> u * \<bar>N / D\<bar> + \<eta>"
    and q: "\<bar>q - A * X\<bar> \<le> u * \<bar>A * X\<bar> + \<eta>"
  shows "\<bar>q - A * X\<bar> + \<bar>(A - N / D) * X\<bar>
           \<le> 17 / 4 * (u * (K * X * t)) + 9 / 8 * (\<eta> * X) + \<eta>"
proof -
  define rN where "rN = \<bar>N\<bar> * t"
  define rNX where "rNX = rN * X"
  define KX where "KX = K * X * t"
  define eX where "eX = \<eta> * X"
  have rN: "\<bar>N / D\<bar> = rN"
    by (simp add: rN_def t abs_divide)
  have rN0: "0 \<le> rN"
    using t by (simp add: rN_def)
  have "rN \<le> 2 * K * t"
    unfolding rN_def using N t by (intro mult_right_mono) simp_all
  then have "rN * X \<le> 2 * K * t * X"
    using X by (intro mult_right_mono) simp_all
  then have rNX: "rNX \<le> 2 * KX" and rNX0: "0 \<le> rNX"
    using rN0 X by (simp_all add: rNX_def KX_def algebra_simps)
  have KX0: "0 \<le> KX"
    using K X t by (simp add: KX_def)
  have eX0: "0 \<le> eX"
    using eta X by (simp add: eX_def)
  note urNX = scaled_le [OF u rNX0]
  note ueX = scaled_le [OF u eX0]
  have "u * rNX \<le> u * (2 * KX)"
    using rNX u by (intro mult_left_mono) simp_all
  then have urNX_KX: "u * rNX \<le> 2 * (u * KX)"
    by simp
  have A': "\<bar>A - N / D\<bar> \<le> u * rN + \<eta>"
    using A [unfolded rN] .
  have "\<bar>(A - N / D) * X\<bar> = \<bar>A - N / D\<bar> * X"
    using X by (simp add: abs_mult)
  also have "\<dots> \<le> (u * rN + \<eta>) * X"
    using A' X by (intro mult_right_mono) simp_all
  also have "\<dots> = u * rNX + eX"
    by (simp add: rNX_def eX_def algebra_simps)
  finally have T2: "\<bar>(A - N / D) * X\<bar> \<le> u * rNX + eX" .
  have "\<bar>A\<bar> \<le> \<bar>N / D\<bar> + \<bar>A - N / D\<bar>"
    by linarith
  then have "\<bar>A\<bar> \<le> rN + (u * rN + \<eta>)"
    using A' unfolding rN by linarith
  then have "\<bar>A\<bar> * X \<le> (rN + (u * rN + \<eta>)) * X"
    using X by (intro mult_right_mono) simp_all
  also have "\<dots> = rNX + u * rNX + eX"
    by (simp add: rNX_def eX_def algebra_simps)
  finally have AX: "\<bar>A * X\<bar> \<le> rNX + u * rNX + eX"
    using X by (simp add: abs_mult)
  have "u * \<bar>A * X\<bar> \<le> u * (rNX + u * rNX + eX)"
    using AX u by (intro mult_left_mono) simp_all
  also have "\<dots> = u * rNX + u * (u * rNX) + u * eX"
    by (simp add: algebra_simps)
  also have "\<dots> \<le> u * rNX + (u * rNX) / 8 + eX / 8"
    using scaled_le [OF u urNX(1)] ueX by linarith
  finally have T1: "\<bar>q - A * X\<bar> \<le> 9 / 8 * (u * rNX) + eX / 8 + \<eta>"
    using q by linarith
  show ?thesis
    using T1 T2 urNX_KX unfolding KX_def [symmetric] eX_def [symmetric] by linarith
qed


lemma computed_numerator:
  fixes u K n N :: real
  assumes "0 \<le> u" "u \<le> 1 / 8" "0 \<le> K" "\<bar>n\<bar> \<le> K" "\<bar>N - n\<bar> \<le> 4 * u * K"
  shows "\<bar>N\<bar> \<le> 2 * K"
proof -
  have "u * K \<le> K / 8"
    using scaled_le [of u K] assms by simp
  moreover have "4 * u * K = 4 * (u * K)"
    by simp
  ultimately show ?thesis
    using assms(4,5) by linarith
qed

lemma reproduction_error:
  fixes u \<eta> S d D Kn n N Km m M A B X Y c q1 q2 v :: real
  assumes u: "0 \<le> u" "u \<le> 1 / 8" and eta: "0 \<le> \<eta>"
    and pos: "0 \<le> S" "0 \<le> Kn" "0 \<le> Km" "0 \<le> X" "0 \<le> Y" "0 \<le> c"
    and nK: "\<bar>n\<bar> \<le> Kn" and mK: "\<bar>m\<bar> \<le> Km"
    and eD: "\<bar>D - d\<bar> \<le> 4 * u * S"
    and eN: "\<bar>N - n\<bar> \<le> 4 * u * Kn"
    and eM: "\<bar>M - m\<bar> \<le> 4 * u * Km"
    and cond: "8 * u * S \<le> \<bar>d\<bar>" and d0: "d \<noteq> 0"
    and A: "\<bar>A - N / D\<bar> \<le> u * \<bar>N / D\<bar> + \<eta>"
    and B: "\<bar>B - M / D\<bar> \<le> u * \<bar>M / D\<bar> + \<eta>"
    and q1: "\<bar>q1 - A * X\<bar> \<le> u * \<bar>A * X\<bar> + \<eta>"
    and q2: "\<bar>q2 - B * Y\<bar> \<le> u * \<bar>B * Y\<bar> + \<eta>"
    and v: "\<bar>v - (q1 + q2)\<bar> \<le> u * \<bar>q1 + q2\<bar> + \<eta>"
    and cr: "n * X + m * Y = c * d"
  shows "\<bar>v - c\<bar> \<le> u * c + u * (19 * (Kn * X + Km * Y) + 9 * (c * S)) / \<bar>d\<bar>
           + \<eta> * (2 * (X + Y) + 4)"
proof -
  have "4 * u * S = 4 * (u * S)" and "8 * u * S = 8 * (u * S)"
    by simp_all
  then have dD: "\<bar>d\<bar> / 2 \<le> \<bar>D\<bar>"
    using eD cond by linarith
  have D0: "D \<noteq> 0" and absD: "0 < \<bar>D\<bar>"
    using dD d0 by auto
  define t where "t = 1 / \<bar>D\<bar>"
  have t: "0 < t" "t = 1 / \<bar>D\<bar>"
    using absD by (simp_all add: t_def)
  have tle: "t \<le> 2 / \<bar>d\<bar>"
  proof -
    have "1 / \<bar>D\<bar> \<le> 1 / (\<bar>d\<bar> / 2)"
      using dD d0 by (intro divide_left_mono) simp_all
    then show ?thesis by (simp add: t_def)
  qed
  define KX where "KX = Kn * X * t"
  define KY where "KY = Km * Y * t"
  define CS where "CS = c * S * t"
  have KX0: "0 \<le> KX" and KY0: "0 \<le> KY" and CS0: "0 \<le> CS"
    using pos t by (simp_all add: KX_def KY_def CS_def)
  have N2: "\<bar>N\<bar> \<le> 2 * Kn"
    using computed_numerator [OF u pos(2) nK eN] .
  have M2: "\<bar>M\<bar> \<le> 2 * Km"
    using computed_numerator [OF u pos(3) mK eM] .
  have Q1: "\<bar>q1 - A * X\<bar> + \<bar>(A - N / D) * X\<bar>
              \<le> 17 / 4 * (u * KX) + 9 / 8 * (\<eta> * X) + \<eta>"
    unfolding KX_def using quotient_error [OF u eta pos(2) pos(4) t N2 A q1] .
  have Q2: "\<bar>q2 - B * Y\<bar> + \<bar>(B - M / D) * Y\<bar>
              \<le> 17 / 4 * (u * KY) + 9 / 8 * (\<eta> * Y) + \<eta>"
    unfolding KY_def using quotient_error [OF u eta pos(3) pos(5) t M2 B q2] .
  have ident: "(N * X + M * Y) / D - c = ((N - n) * X + (M - m) * Y - c * (D - d)) / D"
  proof -
    have "(N - n) * X + (M - m) * Y - c * (D - d) = N * X + M * Y - c * D"
      using cr by (simp add: algebra_simps)
    then show ?thesis
      using D0 by (simp add: field_simps)
  qed
  have num: "\<bar>(N - n) * X + (M - m) * Y - c * (D - d)\<bar>
              \<le> 4 * u * Kn * X + 4 * u * Km * Y + c * (4 * u * S)"
  proof -
    have "\<bar>(N - n) * X\<bar> \<le> 4 * u * Kn * X"
      using eN pos(4) by (simp add: abs_mult mult_right_mono)
    moreover have "\<bar>(M - m) * Y\<bar> \<le> 4 * u * Km * Y"
      using eM pos(5) by (simp add: abs_mult mult_right_mono)
    moreover have "\<bar>c * (D - d)\<bar> \<le> c * (4 * u * S)"
      using eD pos(6) by (simp add: abs_mult mult_left_mono)
    ultimately show ?thesis by linarith
  qed
  have "\<bar>(N * X + M * Y) / D - c\<bar>
          = \<bar>(N - n) * X + (M - m) * Y - c * (D - d)\<bar> * t"
    by (simp add: ident abs_divide t_def)
  also have "\<dots> \<le> (4 * u * Kn * X + 4 * u * Km * Y + c * (4 * u * S)) * t"
    using num t by (intro mult_right_mono) simp_all
  also have "\<dots> = 4 * (u * KX) + 4 * (u * KY) + 4 * (u * CS)"
    by (simp add: KX_def KY_def CS_def algebra_simps)
  finally have T3: "\<bar>(N * X + M * Y) / D - c\<bar> \<le> 4 * (u * KX) + 4 * (u * KY) + 4 * (u * CS)" .
  have split: "q1 + q2 - c = (q1 - A * X) + (q2 - B * Y) + (A - N / D) * X + (B - M / D) * Y
                 + ((N * X + M * Y) / D - c)"
    by (simp add: algebra_simps add_divide_distrib)
  define E where "E = \<bar>q1 + q2 - c\<bar>"
  have E0: "0 \<le> E" by (simp add: E_def)
  have "E \<le> \<bar>q1 - A * X\<bar> + \<bar>q2 - B * Y\<bar> + \<bar>(A - N / D) * X\<bar> + \<bar>(B - M / D) * Y\<bar>
                 + \<bar>(N * X + M * Y) / D - c\<bar>"
    unfolding E_def split by linarith
  then have Eb: "E \<le> 33 / 4 * (u * KX) + 33 / 4 * (u * KY) + 4 * (u * CS)
                   + 9 / 8 * (\<eta> * X) + 9 / 8 * (\<eta> * Y) + 2 * \<eta>"
    using Q1 Q2 T3 by linarith
  have "\<bar>q1 + q2\<bar> \<le> c + E"
    using pos(6) unfolding E_def by linarith
  then have "u * \<bar>q1 + q2\<bar> \<le> u * (c + E)"
    using u by (intro mult_left_mono) simp_all
  then have "u * \<bar>q1 + q2\<bar> \<le> u * c + E / 8"
    using scaled_le [OF u E0] by (simp add: algebra_simps)
  moreover have "\<bar>v - c\<bar> \<le> \<bar>v - (q1 + q2)\<bar> + E"
    unfolding E_def by linarith
  ultimately have "\<bar>v - c\<bar> \<le> u * c + 9 / 8 * E + \<eta>"
    using v by linarith
  then have vb: "\<bar>v - c\<bar> \<le> u * c + 19 / 2 * (u * KX) + 19 / 2 * (u * KY) + 9 / 2 * (u * CS)
                   + 2 * (\<eta> * X) + 2 * (\<eta> * Y) + 4 * \<eta>"
    using Eb eta mult_nonneg_nonneg [OF eta pos(4)] mult_nonneg_nonneg [OF eta pos(5)]
      mult_nonneg_nonneg [OF u(1) KX0] mult_nonneg_nonneg [OF u(1) KY0]
      mult_nonneg_nonneg [OF u(1) CS0]
    by linarith
  have scale: "u * (K * t) \<le> 2 * (u * K) / \<bar>d\<bar>" if "0 \<le> K" for K
  proof -
    have "K * t \<le> K * (2 / \<bar>d\<bar>)"
      using tle that by (intro mult_left_mono) simp_all
    then have "u * (K * t) \<le> u * (K * (2 / \<bar>d\<bar>))"
      using u(1) by (rule mult_left_mono)
    then show ?thesis by (simp add: algebra_simps)
  qed
  have sKX: "u * KX \<le> 2 * (u * (Kn * X)) / \<bar>d\<bar>"
    using scale [of "Kn * X"] pos by (simp add: KX_def algebra_simps)
  have sKY: "u * KY \<le> 2 * (u * (Km * Y)) / \<bar>d\<bar>"
    using scale [of "Km * Y"] pos by (simp add: KY_def algebra_simps)
  have sCS: "u * CS \<le> 2 * (u * (c * S)) / \<bar>d\<bar>"
    using scale [of "c * S"] pos by (simp add: CS_def algebra_simps)
  have "u * (19 * (Kn * X + Km * Y) + 9 * (c * S)) / \<bar>d\<bar>
          = 19 / 2 * (2 * (u * (Kn * X)) / \<bar>d\<bar>) + 19 / 2 * (2 * (u * (Km * Y)) / \<bar>d\<bar>)
            + 9 / 2 * (2 * (u * (c * S)) / \<bar>d\<bar>)"
    by (simp add: algebra_simps add_divide_distrib)
  moreover have "\<eta> * (2 * (X + Y) + 4) = 2 * (\<eta> * X) + 2 * (\<eta> * Y) + 4 * \<eta>"
    by (simp add: algebra_simps)
  ultimately show ?thesis
    using vb sKX sKY sCS by linarith
qed

text \<open>The rounded operators on finite numbers.\<close>

lemma u_facts: "0 \<le> unit_roundoff" "unit_roundoff \<le> 1 / 8" "0 \<le> underflow_unit"
  "underflow_unit \<le> 1"
  by (simp_all add: unit_roundoff_def underflow_unit_def)

lemma rounded:
  assumes "\<bar>x\<bar> \<le> 2 ^ 1023"
  obtains r where "round_double x = Fin r"
    and "\<bar>r - x\<bar> \<le> unit_roundoff * \<bar>x\<bar> + underflow_unit"
    and "\<bar>r\<bar> \<le> 2 * \<bar>x\<bar> + 1"
proof -
  from round_double_finite [OF assms] obtain r where r: "round_double x = Fin r" ..
  have near: "\<bar>r - x\<bar> \<le> unit_roundoff * \<bar>x\<bar> + underflow_unit"
    using round_double_near [OF r] .
  have "unit_roundoff * \<bar>x\<bar> \<le> \<bar>x\<bar> / 8"
    using scaled_le [of unit_roundoff "\<bar>x\<bar>"] u_facts by simp
  then have "\<bar>r\<bar> \<le> 2 * \<bar>x\<bar> + 1"
    using near u_facts(4) by linarith
  then show ?thesis
    using that r near by blast
qed

lemma dmul_Fin: "dmul (Fin a) (Fin b) = round_double (a * b)"
  by (simp add: dmul_def)

lemma dsub_Fin: "dsub (Fin a) (Fin b) = round_double (a - b)"
  by (simp add: dsub_def jsub_def)

lemma dadd_Fin: "dadd (Fin a) (Fin b) = round_double (a + b)"
  by (simp add: dadd_def)

lemma ddiv_Fin: "b \<noteq> 0 \<Longrightarrow> ddiv (Fin a) (Fin b) = round_double (a / b)"
  by (simp add: ddiv_def)

text \<open>A rounded difference of two rounded products of moderate numbers.\<close>

lemma rounded_diff_of_products:
  assumes "moderate a1" "moderate a2" "moderate b1" "moderate b2"
  obtains r where "dsub (dmul (Fin a1) (Fin a2)) (dmul (Fin b1) (Fin b2)) = Fin r"
    and "\<bar>r - (a1 * a2 - b1 * b2)\<bar> \<le> 4 * unit_roundoff * (a1 * a2 + b1 * b2)"
    and "\<bar>r\<bar> \<le> 2 ^ 205"
proof -
  have pos: "0 < a1" "0 < a2" "0 < b1" "0 < b2"
    and hi: "a1 \<le> 2 ^ 100" "a2 \<le> 2 ^ 100" "b1 \<le> 2 ^ 100" "b2 \<le> 2 ^ 100"
    and lo: "1 / 2 ^ 100 \<le> a1" "1 / 2 ^ 100 \<le> a2" "1 / 2 ^ 100 \<le> b1" "1 / 2 ^ 100 \<le> b2"
    using assms by (auto simp: moderate_def intro: less_le_trans [of 0 "1 / 2 ^ 100"])
  define a where "a = a1 * a2"
  define b where "b = b1 * b2"
  have a: "0 \<le> a" "a \<le> 2 ^ 200" "1 / 2 ^ 200 \<le> a"
    using pos hi lo mult_mono [of a1 "2 ^ 100" a2 "2 ^ 100"]
      mult_mono [of "1 / 2 ^ 100" a1 "1 / 2 ^ 100" a2]
    by (simp_all add: a_def)
  have b: "0 \<le> b" "b \<le> 2 ^ 200" "1 / 2 ^ 200 \<le> b"
    using pos hi lo mult_mono [of b1 "2 ^ 100" b2 "2 ^ 100"]
      mult_mono [of "1 / 2 ^ 100" b1 "1 / 2 ^ 100" b2]
    by (simp_all add: b_def)
  obtain p where p: "round_double a = Fin p"
    "\<bar>p - a\<bar> \<le> unit_roundoff * \<bar>a\<bar> + underflow_unit" "\<bar>p\<bar> \<le> 2 * \<bar>a\<bar> + 1"
    using a by (auto intro: rounded [of a])
  obtain q where q: "round_double b = Fin q"
    "\<bar>q - b\<bar> \<le> unit_roundoff * \<bar>b\<bar> + underflow_unit" "\<bar>q\<bar> \<le> 2 * \<bar>b\<bar> + 1"
    using b by (auto intro: rounded [of b])
  have pq: "\<bar>p - q\<bar> \<le> 2 ^ 203"
    using p(3) q(3) a b by simp
  obtain r where r: "round_double (p - q) = Fin r"
    "\<bar>r - (p - q)\<bar> \<le> unit_roundoff * \<bar>p - q\<bar> + underflow_unit" "\<bar>r\<bar> \<le> 2 * \<bar>p - q\<bar> + 1"
    using pq by (auto intro: rounded [of "p - q"])
  have e: "\<bar>r - (a - b)\<bar> \<le> 3 * unit_roundoff * (a + b) + 4 * underflow_unit"
    using diff_of_products [OF u_facts(1,2,3) a(1) b(1), of p q r] p(2) q(2) r(2) a(1) b(1)
    by simp
  have "4 * underflow_unit \<le> unit_roundoff * (1 / 2 ^ 200)"
    by (simp add: underflow_unit_def unit_roundoff_def)
  also have "\<dots> \<le> unit_roundoff * (a + b)"
    using a b u_facts(1) by (intro mult_left_mono) simp_all
  finally have "\<bar>r - (a - b)\<bar> \<le> 4 * (unit_roundoff * (a + b))"
    using e by (simp add: algebra_simps)
  moreover have "\<bar>r\<bar> \<le> 2 ^ 205"
    using r(3) pq by simp
  ultimately show ?thesis
    using that [of r] p(1) q(1) r(1)
    by (simp add: dmul_Fin dsub_Fin a_def b_def algebra_simps)
qed

lemma moderateD:
  assumes "moderate z"
  shows "0 < z" "z \<le> 2 ^ 100" "1 / 2 ^ 100 \<le> z" "0 \<le> z"
  using assms by (auto simp: moderate_def intro: less_le_trans [of 0 "1 / 2 ^ 100"])

lemma clamp_in_doubles:
  assumes low: "jle (round_double 0.1) (Fin s)" and "s \<le> s2" and "s2 \<le> 2 ^ 100"
  shows "Math_max (round_double 0.1) (Math_min (Fin s) (dmul (Fin s2) (round_double 1.2)))
           = Fin s"
proof -
  obtain r01 where r01: "round_double 0.1 = Fin r01"
    "\<bar>r01 - 0.1\<bar> \<le> unit_roundoff * \<bar>0.1\<bar> + underflow_unit"
    by (rule rounded [of "0.1"]) simp_all
  obtain c12 where c12: "round_double 1.2 = Fin c12"
    "\<bar>c12 - 1.2\<bar> \<le> unit_roundoff * \<bar>1.2\<bar> + underflow_unit" "\<bar>c12\<bar> \<le> 2 * \<bar>1.2\<bar> + 1"
    by (rule rounded [of "1.2"]) simp_all
  have small: "unit_roundoff \<le> 1 / 1000" "underflow_unit \<le> 1 / 1000"
    by (simp_all add: unit_roundoff_def underflow_unit_def)
  have s_low: "r01 \<le> s" and r01_low: "9 / 100 \<le> r01"
    using low r01 small u_facts by simp_all
  then have s2_low: "9 / 100 \<le> s2"
    using assms(2) by simp
  have c12_low: "119 / 100 \<le> c12" and c12_hi: "c12 \<le> 4"
    using c12 small u_facts by simp_all
  have prod_hi: "\<bar>s2 * c12\<bar> \<le> 2 ^ 1023"
  proof -
    have "s2 * c12 \<le> 2 ^ 100 * 4"
      using assms(3) c12_hi s2_low c12_low by (intro mult_mono) simp_all
    then show ?thesis
      using s2_low c12_low by (simp add: abs_mult)
  qed
  obtain r12 where r12: "round_double (s2 * c12) = Fin r12"
    "\<bar>r12 - s2 * c12\<bar> \<le> unit_roundoff * \<bar>s2 * c12\<bar> + underflow_unit"
    by (rule rounded [OF prod_hi])
  define P where "P = s2 * c12"
  have P1: "s2 * (119 / 100) \<le> P"
    unfolding P_def using c12_low s2_low by (intro mult_left_mono) simp_all
  then have P0: "0 \<le> P"
    using s2_low by linarith
  have "unit_roundoff * P \<le> 1 / 1000 * P"
    using small(1) P0 by (rule mult_right_mono)
  moreover have "\<bar>r12 - P\<bar> \<le> unit_roundoff * P + underflow_unit"
    using r12(2) P0 unfolding P_def [symmetric] by simp
  ultimately have "s2 \<le> r12"
    using P1 small(2) s2_low by linarith
  then have "s \<le> r12"
    using assms(2) by simp
  then show ?thesis
    using s_low r01(1) c12(1) r12(1) by (simp add: dmul_Fin)
qed


lemma above_tenth_positive:
  assumes "jle (round_double 0.1) (Fin s)"
  shows "0 < s"
proof -
  obtain r01 where r01: "round_double 0.1 = Fin r01"
    "\<bar>r01 - 0.1\<bar> \<le> unit_roundoff * \<bar>0.1\<bar> + underflow_unit"
    by (rule rounded [of "0.1"]) simp_all
  have "unit_roundoff \<le> 1 / 1000" "underflow_unit \<le> 1 / 1000"
    by (simp_all add: unit_roundoff_def underflow_unit_def)
  then have "9 / 100 \<le> r01"
    using r01 u_facts by simp
  then show ?thesis
    using assms r01(1) by simp
qed

lemma tenth_below: "jle (round_double 0.1) (Fin 10)"
proof -
  obtain r01 where r01: "round_double 0.1 = Fin r01" "\<bar>r01\<bar> \<le> 2 * \<bar>0.1\<bar> + 1"
    by (rule rounded [of "0.1"]) simp_all
  then show ?thesis by simp
qed

lemma rounded_keeps_sign:
  assumes "1 \<le> x" and "x \<le> 2 ^ 1023"
  obtains r r' where "round_double x = Fin r" "0 < r" "round_double (- x) = Fin r'" "r' < 0"
proof -
  have small: "unit_roundoff \<le> 1 / 8" "underflow_unit \<le> 1 / 8"
    by (simp_all add: unit_roundoff_def underflow_unit_def)
  obtain r where r: "round_double x = Fin r"
    "\<bar>r - x\<bar> \<le> unit_roundoff * \<bar>x\<bar> + underflow_unit"
    using assms by (auto intro: rounded [of x])
  obtain r' where r': "round_double (- x) = Fin r'"
    "\<bar>r' - (- x)\<bar> \<le> unit_roundoff * \<bar>- x\<bar> + underflow_unit"
    using assms by (auto intro: rounded [of "- x"])
  define e where "e = unit_roundoff * x"
  have "e \<le> 1 / 8 * x"
    unfolding e_def using small(1) assms(1) by (intro mult_right_mono) simp_all
  moreover have "\<bar>r - x\<bar> \<le> e + underflow_unit" "\<bar>r' + x\<bar> \<le> e + underflow_unit"
    using r(2) r'(2) assms(1) by (simp_all add: e_def)
  ultimately have "0 < r" "r' < 0"
    using small(2) assms(1) by linarith+
  then show ?thesis
    using that r(1) r'(1) by blast
qed

text \<open>
  C3, in double precision. Let the economic speed be at least the double \<open>0.1\<close> and below
  the full speed, the full speed at most \<open>2 ^ 100\<close>, and the two costs and the four powers
  that \<open>Math.pow\<close> returns lie between \<open>2 ^ -100\<close> and \<open>2 ^ 100\<close>. Let the calibration system be
  well conditioned: the determinant \<open>d = x1 * y2 - x2 * y1\<close> of the computed powers is at
  least \<open>8 * 2 ^ -53\<close> times \<open>S = x1 * y2 + x2 * y1\<close> in magnitude. Then \<open>solveAlphaBeta\<close> returns
  two finite coefficients, and with them \<open>calculateBaseCost\<close> returns at the economic speed
  a finite cost within \<open>2 ^ -53 * (2 * c1 + (28 * c1 * S + 38 * c2 * x1 * y1) / \<bar>d\<bar>)\<close> of the
  economic cost \<open>c1\<close>, and likewise at the full speed. The condition on the determinant
  takes the place of a condition on the wave exponent: at a wave exponent of 3 the
  determinant is 0, and close to 3 it is lost in the rounding of the two products.
\<close>

theorem calibration_in_doubles:
  assumes wave: "waveExp p = Fin w" and full: "fullSpeed p = Fin s2"
    and pows: "pw (Fin s1) (Fin 3) = Fin x1" "pw (Fin s1) (Fin w) = Fin y1"
      "pw (Fin s2) (Fin 3) = Fin x2" "pw (Fin s2) (Fin w) = Fin y2"
    and speeds: "jle (round_double 0.1) (Fin s1)" "s1 < s2" "s2 \<le> 2 ^ 100"
    and mods: "moderate c1" "moderate c2" "moderate x1" "moderate y1" "moderate x2" "moderate y2"
    and cond: "8 * unit_roundoff * (x1 * y2 + x2 * y1) \<le> \<bar>x1 * y2 - x2 * y1\<bar>"
  shows "\<exists>a b v1 v2 p'.
           solveAlphaBeta_double pw p (Fin c1) (Fin c2) (Fin s1) (Fin s2)
             = Inr ((Fin a, Fin b), p') \<and>
           calculateBaseCost_double pw p' (Fin s1) = Inr (Fin v1, p') \<and>
           \<bar>v1 - c1\<bar> \<le> tolerance c1 c2 (x1 * y1) (x1 * y2 + x2 * y1) (x1 * y2 - x2 * y1) \<and>
           calculateBaseCost_double pw p' (Fin s2) = Inr (Fin v2, p') \<and>
           \<bar>v2 - c2\<bar> \<le> tolerance c2 c1 (x2 * y2) (x1 * y2 + x2 * y1) (x1 * y2 - x2 * y1)"
proof -
  define u where "u = unit_roundoff"
  define S where "S = x1 * y2 + x2 * y1"
  define d where "d = x1 * y2 - x2 * y1"
  define Kn where "Kn = c1 * y2 + c2 * y1"
  define n where "n = c1 * y2 - c2 * y1"
  define Km where "Km = c2 * x1 + c1 * x2"
  define m where "m = c2 * x1 - c1 * x2"
  note md = mods [THEN moderateD(1)] mods [THEN moderateD(2)] mods [THEN moderateD(3)]
  have u: "0 \<le> u" "u \<le> 1 / 8"
    using u_facts by (simp_all add: u_def)
  have s1: "0 < s1"
    using above_tenth_positive [OF speeds(1)] .
  have s2: "0 < s2"
    using s1 speeds(2) by simp
  obtain Dv where D: "dsub (dmul (Fin x1) (Fin y2)) (dmul (Fin x2) (Fin y1)) = Fin Dv"
    "\<bar>Dv - d\<bar> \<le> 4 * u * S" "\<bar>Dv\<bar> \<le> 2 ^ 205"
    unfolding d_def S_def u_def
    by (rule rounded_diff_of_products [OF mods(3) mods(6) mods(5) mods(4)])
  obtain N where N: "dsub (dmul (Fin c1) (Fin y2)) (dmul (Fin c2) (Fin y1)) = Fin N"
    "\<bar>N - n\<bar> \<le> 4 * u * Kn" "\<bar>N\<bar> \<le> 2 ^ 205"
    unfolding n_def Kn_def u_def
    by (rule rounded_diff_of_products [OF mods(1) mods(6) mods(2) mods(4)])
  obtain M where M: "dsub (dmul (Fin c2) (Fin x1)) (dmul (Fin c1) (Fin x2)) = Fin M"
    "\<bar>M - m\<bar> \<le> 4 * u * Km" "\<bar>M\<bar> \<le> 2 ^ 205"
    unfolding m_def Km_def u_def
    by (rule rounded_diff_of_products [OF mods(2) mods(3) mods(1) mods(5)])
  have pos: "0 \<le> S" "0 \<le> Kn" "0 \<le> Km"
    using md by (simp_all add: S_def Kn_def Km_def)
  have nK: "\<bar>n\<bar> \<le> Kn" and mK: "\<bar>m\<bar> \<le> Km"
    using md by (simp_all add: n_def Kn_def m_def Km_def abs_le_iff)
  have S_lo: "2 / 2 ^ 200 \<le> S"
    using mult_mono [of "1 / 2 ^ 100" x1 "1 / 2 ^ 100" y2]
      mult_mono [of "1 / 2 ^ 100" x2 "1 / 2 ^ 100" y1] md
    by (simp add: S_def)
  have cond': "8 * u * S \<le> \<bar>d\<bar>"
    using cond by (simp add: u_def S_def d_def)
  have uS: "1 / 2 ^ 250 \<le> 4 * (u * S)"
  proof -
    have "u * (2 / 2 ^ 200) \<le> u * S"
      using S_lo u(1) by (rule mult_left_mono)
    then show ?thesis by (simp add: u_def unit_roundoff_def)
  qed
  have low_pos: "(0::real) < 1 / 2 ^ 250"
    by simp
  have "4 * u * S = 4 * (u * S)" "8 * u * S = 8 * (u * S)"
    by simp_all
  then have Dv_lo: "1 / 2 ^ 250 \<le> \<bar>Dv\<bar>" and d0: "d \<noteq> 0"
    using D(2) cond' uS low_pos by linarith+
  then have Dv0: "Dv \<noteq> 0"
    by auto
  have quot: "\<bar>z / Dv\<bar> \<le> 2 ^ 455" if "\<bar>z\<bar> \<le> 2 ^ 205" for z
  proof -
    have "\<bar>z\<bar> / \<bar>Dv\<bar> \<le> 2 ^ 205 / (1 / 2 ^ 250)"
      using that Dv_lo by (intro frac_le) simp_all
    then show ?thesis by (simp add: abs_divide)
  qed
  obtain A where A: "round_double (N / Dv) = Fin A"
    "\<bar>A - N / Dv\<bar> \<le> unit_roundoff * \<bar>N / Dv\<bar> + underflow_unit" "\<bar>A\<bar> \<le> 2 * \<bar>N / Dv\<bar> + 1"
    using quot [OF N(3)] by (auto intro: rounded [of "N / Dv"])
  obtain B where B: "round_double (M / Dv) = Fin B"
    "\<bar>B - M / Dv\<bar> \<le> unit_roundoff * \<bar>M / Dv\<bar> + underflow_unit" "\<bar>B\<bar> \<le> 2 * \<bar>M / Dv\<bar> + 1"
    using quot [OF M(3)] by (auto intro: rounded [of "M / Dv"])
  have Ab: "\<bar>A\<bar> \<le> 2 ^ 457" and Bb: "\<bar>B\<bar> \<le> 2 ^ 457"
    using A(3) B(3) quot [OF N(3)] quot [OF M(3)] by simp_all
  define p' where "p' = p\<lparr>alpha := Some (Fin A), beta := Some (Fin B)\<rparr>"
  have solved: "solveAlphaBeta_double pw p (Fin c1) (Fin c2) (Fin s1) (Fin s2)
                  = Inr ((Fin A, Fin B), p')"
    using s1 s2 speeds(2) md(1,2) Dv0
    by (simp add: solveAlphaBeta_double_def strict_eq_def wave pows D(1) N(1) M(1) ddiv_Fin
        A(1) B(1) p'_def Let_def)
  have fields: "alpha p' = Some (Fin A)" "beta p' = Some (Fin B)" "waveExp p' = Fin w"
    "fullSpeed p' = Fin s2"
    by (simp_all add: p'_def wave full)
  have point: "\<exists>v. calculateBaseCost_double pw p' (Fin s) = Inr (Fin v, p') \<and>
                 \<bar>v - c\<bar> \<le> tolerance c c' (X * Y) S d"
    if pX: "pw (Fin s) (Fin 3) = Fin X" and pY: "pw (Fin s) (Fin w) = Fin Y"
      and mX: "moderate X" and mY: "moderate Y" and mc: "moderate c"
      and low: "jle (round_double 0.1) (Fin s)" and up: "s \<le> s2"
      and cr: "n * X + m * Y = c * d"
      and G: "Kn * X + Km * Y = c * S + 2 * (c' * (X * Y))"
    for s X Y c c'
  proof -
    note X = moderateD [OF mX] and Y = moderateD [OF mY] and c = moderateD [OF mc]
    have clamp: "Math_max (round_double 0.1)
                   (Math_min (Fin s) (dmul (Fin s2) (round_double 1.2))) = Fin s"
      using clamp_in_doubles [OF low up speeds(3)] .
    have prod: "\<bar>z * Z\<bar> \<le> 2 ^ 557" if "\<bar>z\<bar> \<le> 2 ^ 457" "0 \<le> Z" "Z \<le> 2 ^ 100" for z Z :: real
    proof -
      have "\<bar>z\<bar> * Z \<le> 2 ^ 457 * 2 ^ 100"
        using that by (intro mult_mono) simp_all
      then show ?thesis
        using that(2) by (simp add: abs_mult)
    qed
    obtain q1 where q1: "round_double (A * X) = Fin q1"
      "\<bar>q1 - A * X\<bar> \<le> unit_roundoff * \<bar>A * X\<bar> + underflow_unit"
      "\<bar>q1\<bar> \<le> 2 * \<bar>A * X\<bar> + 1"
      using prod [OF Ab X(4) X(2)] by (auto intro: rounded [of "A * X"])
    obtain q2 where q2: "round_double (B * Y) = Fin q2"
      "\<bar>q2 - B * Y\<bar> \<le> unit_roundoff * \<bar>B * Y\<bar> + underflow_unit"
      "\<bar>q2\<bar> \<le> 2 * \<bar>B * Y\<bar> + 1"
      using prod [OF Bb Y(4) Y(2)] by (auto intro: rounded [of "B * Y"])
    have "\<bar>q1 + q2\<bar> \<le> 2 ^ 1023"
      using q1(3) q2(3) prod [OF Ab X(4) X(2)] prod [OF Bb Y(4) Y(2)] by simp
    then obtain v where v: "round_double (q1 + q2) = Fin v"
      "\<bar>v - (q1 + q2)\<bar> \<le> unit_roundoff * \<bar>q1 + q2\<bar> + underflow_unit"
      by (auto intro: rounded [of "q1 + q2"])
    have base: "calculateBaseCost_double pw p' (Fin s) = Inr (Fin v, p')"
      unfolding calculateBaseCost_double_def
      by (simp only: fields option.distinct simp_thms if_False sum.case prod.case Let_def
          clamp absent_as_nan_def option.case pX pY dmul_Fin q1(1) q2(1) dadd_Fin v(1))
    have err: "\<bar>v - c\<bar> \<le> u * c + u * (19 * (Kn * X + Km * Y) + 9 * (c * S)) / \<bar>d\<bar>
                 + underflow_unit * (2 * (X + Y) + 4)"
      using reproduction_error [OF u u_facts(3) pos X(4) Y(4) c(4) nK mK D(2) N(2) M(2)
          cond' d0 A(2) [folded u_def] B(2) [folded u_def] q1(2) [folded u_def]
          q2(2) [folded u_def] v(2) [folded u_def] cr] .
    have "underflow_unit * (2 * (X + Y) + 4) \<le> underflow_unit * (2 * (2 ^ 100 + 2 ^ 100) + 4)"
      using X(2) Y(2) u_facts(3) by (intro mult_left_mono) simp_all
    also have "\<dots> \<le> u * (1 / 2 ^ 100)"
      by (simp add: u_def unit_roundoff_def underflow_unit_def)
    also have "\<dots> \<le> u * c"
      using c(3) u(1) by (rule mult_left_mono)
    finally have tiny: "underflow_unit * (2 * (X + Y) + 4) \<le> u * c" .
    have eq: "19 * (Kn * X + Km * Y) + 9 * (c * S) = 28 * (c * S) + 38 * (c' * (X * Y))"
      unfolding G by simp
    have "\<bar>v - c\<bar> \<le> 2 * (u * c) + u * (28 * (c * S) + 38 * (c' * (X * Y))) / \<bar>d\<bar>"
      using err [unfolded eq] tiny by linarith
    also have "\<dots> = tolerance c c' (X * Y) S d"
      by (simp add: tolerance_def u_def algebra_simps)
    finally show ?thesis
      using base by blast
  qed
  have "s1 \<le> s2"
    using speeds(2) by simp
  from point [OF pows(1,2) mods(3,4) mods(1) speeds(1) this, of c2]
  obtain v1 where v1: "calculateBaseCost_double pw p' (Fin s1) = Inr (Fin v1, p')"
    "\<bar>v1 - c1\<bar> \<le> tolerance c1 c2 (x1 * y1) S d"
    by (auto simp: n_def m_def d_def Kn_def Km_def S_def algebra_simps)
  have low2: "jle (round_double 0.1) (Fin s2)"
  proof -
    obtain r01 where "round_double 0.1 = Fin r01"
      by (rule rounded [of "0.1"]) simp_all
    then show ?thesis
      using speeds(1,2) by simp
  qed
  from point [OF pows(3,4) mods(5,6) mods(2) low2, of c1]
  obtain v2 where v2: "calculateBaseCost_double pw p' (Fin s2) = Inr (Fin v2, p')"
    "\<bar>v2 - c2\<bar> \<le> tolerance c2 c1 (x2 * y2) S d"
    by (auto simp: n_def m_def d_def Kn_def Km_def S_def algebra_simps)
  show ?thesis
    using solved v1 v2 unfolding S_def d_def by blast
qed

theorem calibration_in_doubles_witness:
  "waveExp example_physics = Fin 4 \<and> fullSpeed example_physics = Fin 20 \<and>
   Math_pow (Fin 10) (Fin 3) = Fin 1000 \<and> Math_pow (Fin 10) (Fin 4) = Fin 10000 \<and>
   Math_pow (Fin 20) (Fin 3) = Fin 8000 \<and> Math_pow (Fin 20) (Fin 4) = Fin 160000 \<and>
   jle (round_double 0.1) (Fin 10) \<and>
   moderate 1000 \<and> moderate 12000 \<and> moderate 10000 \<and> moderate 8000 \<and> moderate 160000 \<and>
   8 * unit_roundoff * (1000 * 160000 + 8000 * 10000) \<le> \<bar>1000 * 160000 - 8000 * 10000\<bar> \<and>
   (\<exists>a b v1 v2 p'.
      solveAlphaBeta_double Math_pow example_physics (Fin 1000) (Fin 12000) (Fin 10) (Fin 20)
        = Inr ((Fin a, Fin b), p') \<and>
      calculateBaseCost_double Math_pow p' (Fin 10) = Inr (Fin v1, p') \<and>
      \<bar>v1 - 1000\<bar> \<le> unit_roundoff * 143000 \<and>
      calculateBaseCost_double Math_pow p' (Fin 20) = Inr (Fin v2, p') \<and>
      \<bar>v2 - 12000\<bar> \<le> unit_roundoff * 1640000)"
proof -
  have w: "waveExp example_physics = Fin 4" and f: "fullSpeed example_physics = Fin 20"
    by (simp_all add: example_physics_def)
  have pows: "Math_pow (Fin 10) (Fin 3) = Fin 1000" "Math_pow (Fin 10) (Fin 4) = Fin 10000"
    "Math_pow (Fin 20) (Fin 3) = Fin 8000" "Math_pow (Fin 20) (Fin 4) = Fin 160000"
    by (simp_all add: pow_real_def)
  have mods: "moderate 1000" "moderate 12000" "moderate 1000" "moderate 10000" "moderate 8000"
    "moderate 160000"
    by (simp_all add: moderate_def)
  have cond: "8 * unit_roundoff * (1000 * 160000 + 8000 * 10000)
                \<le> \<bar>1000 * 160000 - 8000 * 10000\<bar>"
    by (simp add: unit_roundoff_def)
  have t1: "tolerance 1000 12000 (1000 * 10000) (1000 * 160000 + 8000 * 10000)
              (1000 * 160000 - 8000 * 10000) = unit_roundoff * 143000"
    and t2: "tolerance 12000 1000 (8000 * 160000) (1000 * 160000 + 8000 * 10000)
              (1000 * 160000 - 8000 * 10000) = unit_roundoff * 1640000"
    by (simp_all add: tolerance_def)
  from calibration_in_doubles [OF w f pows tenth_below _ _ mods cond]
  show ?thesis
    using w f pows mods cond tenth_below unfolding t1 t2 by simp
qed

text \<open>
  With a wave exponent of 3, which is positive, the two rounded products of the
  determinant are the same double: the determinant is 0, the two coefficients are the
  two infinities, and the base cost at the economic speed is NaN, not the economic
  cost.
\<close>

theorem calibration_fails_at_exponent_3_in_doubles:
  "new_FoulingPhysics cubic_vessel = example_physics\<lparr>waveExp := Fin 3\<rparr> \<and>
   solveAlphaBeta_double Math_pow (example_physics\<lparr>waveExp := Fin 3\<rparr>)
       (Fin 1000) (Fin 12000) (Fin 10) (Fin 20)
     = Inr ((NInf, PInf),
            example_physics\<lparr>waveExp := Fin 3, alpha := Some NInf, beta := Some PInf\<rparr>) \<and>
   calculateBaseCost_double Math_pow
       (example_physics\<lparr>waveExp := Fin 3, alpha := Some NInf, beta := Some PInf\<rparr>) (Fin 10)
     = Inr (NaN, example_physics\<lparr>waveExp := Fin 3, alpha := Some NInf, beta := Some PInf\<rparr>) \<and>
   (0.1::real) \<le> 10 \<and> (10::real) < 20 \<and> (0::real) < 1000 \<and> (1000::real) < 12000 \<and>
   (0::real) < 3"
proof -
  have small: "unit_roundoff \<le> 1 / 1000" "underflow_unit \<le> 1 / 1000"
    by (simp_all add: unit_roundoff_def underflow_unit_def)
  obtain r where r: "round_double 8000000 = Fin r"
    "\<bar>r - 8000000\<bar> \<le> unit_roundoff * \<bar>8000000\<bar> + underflow_unit"
    by (rule rounded [of 8000000]) simp_all
  obtain r2 where r2: "round_double 12000000 = Fin r2"
    "\<bar>r2 - 12000000\<bar> \<le> unit_roundoff * \<bar>12000000\<bar> + underflow_unit"
    by (rule rounded [of 12000000]) simp_all
  have "unit_roundoff * 8000000 \<le> 1 / 1000 * 8000000"
    and "unit_roundoff * 12000000 \<le> 1 / 1000 * 12000000"
    using small(1) by (simp_all only: mult_right_mono zero_le_numeral)
  then have gap: "1 \<le> r2 - r" "r2 - r \<le> 2 ^ 1023"
    using r(2) r2(2) small(2) by simp_all
  obtain M N where M: "round_double (r2 - r) = Fin M" "0 < M"
    and N: "round_double (- (r2 - r)) = Fin N" "N < 0"
    by (rule rounded_keeps_sign [OF gap])
  have N': "round_double (r - r2) = Fin N"
    using N(1) by simp
  have solved: "solveAlphaBeta_double Math_pow (example_physics\<lparr>waveExp := Fin 3\<rparr>)
       (Fin 1000) (Fin 12000) (Fin 10) (Fin 20)
     = Inr ((NInf, PInf),
            example_physics\<lparr>waveExp := Fin 3, alpha := Some NInf, beta := Some PInf\<rparr>)"
    using M(2) N(2)
    by (simp add: solveAlphaBeta_double_def example_physics_def strict_eq_def pow_real_def
        dmul_Fin r(1) r2(1) dsub_Fin round_double_def [of 0] M(1) N' ddiv_def Let_def)
  have clamp: "Math_max (round_double 0.1)
                 (Math_min (Fin 10) (dmul (Fin 20) (round_double 1.2))) = Fin 10"
    by (rule clamp_in_doubles [OF tenth_below]) simp_all
  define P3 where
    "P3 = example_physics\<lparr>waveExp := Fin 3, alpha := Some NInf, beta := Some PInf\<rparr>"
  have fields: "alpha P3 = Some NInf" "beta P3 = Some PInf" "waveExp P3 = Fin 3"
    "fullSpeed P3 = Fin 20"
    by (simp_all add: P3_def example_physics_def)
  have cube: "Math_pow (Fin 10) (Fin 3) = Fin 1000"
    by (simp add: pow_real_def)
  have sum: "dadd (dmul NInf (Fin 1000)) (dmul PInf (Fin 1000)) = NaN"
    by (simp add: dmul_def dadd_def)
  have "calculateBaseCost_double Math_pow P3 (Fin 10) = Inr (NaN, P3)"
    unfolding calculateBaseCost_double_def
    by (simp only: fields option.distinct simp_thms if_False sum.case prod.case Let_def
        clamp absent_as_nan_def option.case cube sum)
  then have base: "calculateBaseCost_double Math_pow
       (example_physics\<lparr>waveExp := Fin 3, alpha := Some NInf, beta := Some PInf\<rparr>) (Fin 10)
     = Inr (NaN, example_physics\<lparr>waveExp := Fin 3, alpha := Some NInf, beta := Some PInf\<rparr>)"
    unfolding P3_def .
  have made: "new_FoulingPhysics cubic_vessel = example_physics\<lparr>waveExp := Fin 3\<rparr>"
    by (simp add: new_FoulingPhysics_def cubic_vessel_def example_vessel_def
        absent_as_nan_def or_default_def estimateMissingParameters_def example_physics_def)
  show ?thesis
    using made solved base by simp
qed

section \<open>The fouling impact\<close>

text \<open>
  What the source computes. For a Froude number \<open>x\<close> the reduction factor is 1 up to
  0.15, then \<open>1 - 2 (x - 0.15)\<close>, and 0.3 from 0.5 on; the effective increase is the table
  entry of the level times this factor.
\<close>

lemma speedReduction_shape:
  assumes "calculateCostAt p spd lvl = Inr (c, p')" and "froude p' spd = Fin x"
  shows "speedReduction c =
           Fin (if x \<le> 0.15 then 1 else if x \<le> 0.5 then 1 - 2 * (x - 0.15) else 0.3) \<and>
         foulingIncrease c = jmul (index_or_zero foulingIncreases lvl) (speedReduction c)"
  using assms
  by (auto simp: calculateCostAt_def Let_def jgt_def jsub_def split: sum.splits prod.splits)

text \<open>
  C5. The increase should fall linearly from the full table value at Froude 0.15 to 30%
  of it at Froude 0.35 and stay there. For the concrete vessel at 21 knots and level 3
  (table value 0.60) the Froude number is about 0.367, above 0.35; the source is still on
  the line of slope 2 and returns an increase of about 0.3395, not \<open>0.3 \<times> 0.60 = 0.18\<close>.
\<close>

theorem floor_not_reached_at_froude_035:
  "calculateCostAt (phys example_model) (Fin 21) 3 =
     Inr (\<lparr>clean = Fin 14354.55, fouled = Fin (130989957903 / 6812500),
           foulingIncrease = Fin (346924 / 1021875),
           speedReduction = Fin (346924 / 613125),
           roughness = Fin 0.0003\<rparr>, phys example_model) \<and>
   froude (phys example_model) (Fin 21) = Fin (10.803324 / 29.43) \<and>
   (0.35::real) \<le> 10.803324 / 29.43 \<and>
   (346924 / 613125 :: real) = 1 - 2 * (10.803324 / 29.43 - 0.15) \<and>
   (346924 / 1021875 :: real) \<noteq> 0.3 * 0.60"
  by (simp add: calculateCostAt_def calculateBaseCost_def example_model_def example_physics_def
      absent_as_nan_def pow_real_def froude_def GRAVITY_def KNOTS_TO_MPS_def
      index_or_zero_def frKsMapping_def foulingIncreases_def jgt_def jsub_def sqrt_gL Let_def)

section \<open>Retraining\<close>

lemma retrainModel_buffer:
  "trainingDataBuffer (retrainModel m) = trainingDataBuffer m"
  by (simp add: retrainModel_def updateFoulingAccumulationRate_def Let_def)

lemma predictComponents_frame:
  "predictComponents m spd w = Inr (r, m') \<Longrightarrow>
     trainingDataBuffer m' = trainingDataBuffer m \<and> maxBufferSize m' = maxBufferSize m"
  by (auto simp: predictComponents_def Let_def split: sum.splits prod.splits)

lemma last_store:
  "0 < maxBufferSize m \<Longrightarrow>
     trainingDataBuffer (storeTrainingData m d) \<noteq> [] \<and>
     last (trainingDataBuffer (storeTrainingData m d)) = d"
  by (cases "trainingDataBuffer m") (auto simp: storeTrainingData_def Let_def last_tl)

text \<open>
  The error that an accepted reading stores in the buffer is the absolute error divided
  by the prediction, not the signed error.
\<close>

lemma stored_error_is_unsigned:
  assumes "updateFromReading m a spd w ts now = Inr (Some r, m')" and "0 < maxBufferSize m"
  shows "trainingDataBuffer m' \<noteq> [] \<and>
         dp_actual (last (trainingDataBuffer m')) = a \<and>
         dp_error (last (trainingDataBuffer m'))
           = jdiv (Math_abs (jsub a (dp_predicted (last (trainingDataBuffer m')))))
                  (dp_predicted (last (trainingDataBuffer m')))"
proof -
  from assms(1) obtain pr m0 where
    pc: "predictComponents m spd (Some (case w of None \<Rightarrow> ''calm'' | Some s \<Rightarrow> s))
           = Inr (pr, m0)"
    by (auto simp: updateFromReading_def Let_def split: if_splits sum.splits prod.splits)
  have size: "0 < maxBufferSize m0"
    using predictComponents_frame [OF pc] assms(2) by simp
  show ?thesis
    using assms(1) pc size
    by (auto simp: updateFromReading_def Let_def retrainModel_buffer updateConfidence_def
        last_store split: if_splits)
qed

lemma retrain_needs_three:
  "length (filter (\<lambda>d. dp_frLevel d > 0) (trainingDataBuffer m)) < 3 \<Longrightarrow>
     updateFoulingAccumulationRate m = m"
  by (simp add: updateFoulingAccumulationRate_def)



















text \<open>
  A difference that no run shows. If a buffer held finite numbers, the source would
  average the stored error field, which is unsigned, where the rule of the specification
  averages signed errors: for three observations with a prediction of 100 and a
  consumption of 80, written into the buffer by hand, the signed error is \<open>-0.2\<close> and the
  rule gives a rate of 0.9, while the source raises the rate to 1.1.
\<close>

lemma unsigned_error_on_finite_window:
  "foulingAccumulationRate (updateFoulingAccumulationRate overpredicting_model) = Fin 1.1 \<and>
   claimed_retrained_rate overpredicting_model = Fin 0.9 \<and>
   dp_error overpredicted
     = jdiv (Math_abs (jsub (dp_actual overpredicted) (dp_predicted overpredicted)))
            (dp_predicted overpredicted) \<and>
   signedError overpredicted = Fin (- 0.2)"
  by (simp add: updateFoulingAccumulationRate_def claimed_retrained_rate_def
      overpredicting_model_def overpredicted_def example_model_def errorsByFR_def avgError_def
      signedError_def jsub_def Let_def)

end
